theory Spec2Isabelle
  imports Main "HOL-Library.Char_ord" "HOL-Library.List_Lexorder"
begin


section \<open>JavaScript values, strings, errors and HTTP outcomes\<close>

text \<open>
  The front end (\<open>api.ts\<close> and the \<open>App\<close> component) is TypeScript running in a browser.
  JSON values are a datatype; the number type is a parameter \<open>'n\<close> (JavaScript doubles,
  with \<open>Number\<close> and \<open>String\<close> on them supplied by the environment). A string is a list
  of characters; an object is an association list in the order of \<open>Object.keys\<close>, with
  distinct keys.
\<close>

datatype 'n jsval =
    JUndefined
  | JNull
  | JBool bool
  | JNum 'n
  | JStr string
  | JArr "'n jsval list"
  | JObj "(string \<times> 'n jsval) list"

type_synonym 'n object = "(string \<times> 'n jsval) list"

text \<open>A thrown \<open>Error\<close>: its \<open>name\<close> and its \<open>message\<close>.\<close>

datatype js_error = JsError (err_name: string) (message: string)

definition new_Error :: "string \<Rightarrow> js_error" where
  "new_Error m = JsError ''Error'' m"

text \<open>\<open>String(e)\<close> for an error object (\<open>Error.prototype.toString\<close>).\<close>

definition String_error :: "js_error \<Rightarrow> string" where
  "String_error e =
     (if err_name e = [] then message e
      else if message e = [] then err_name e
      else err_name e @ '': '' @ message e)"

text \<open>\<open>a || b\<close> on strings: the empty string is falsy.\<close>

definition or_str :: "string \<Rightarrow> string \<Rightarrow> string" where
  "or_str a b = (if a = [] then b else a)"

text \<open>
  The outcome of one \<open>fetch\<close>: the promise rejects (network failure), or a response
  arrives with its \<open>ok\<close> flag and the outcome of \<open>res.json()\<close>, which rejects when the
  body is not JSON.
\<close>

datatype 'a http = Rejected js_error | Response bool "js_error + 'a"

text \<open>Decimal text of an integer, as a template literal prints an integer id.\<close>

definition digit_char :: "nat \<Rightarrow> char" where
  "digit_char d = char_of (48 + d)"

function show_nat :: "nat \<Rightarrow> string" where
  "show_nat n = (if n < 10 then [digit_char n] else show_nat (n div 10) @ [digit_char (n mod 10)])"
  by pat_completeness auto
termination
  by (relation "measure (\<lambda>n. n)") auto

declare show_nat.simps [simp del]

definition show_int :: "int \<Rightarrow> string" where
  "show_int i = (if i < 0 then CHR ''-'' # show_nat (nat (- i)) else show_nat (nat i))"

text \<open>
  \<open>String.prototype.trim\<close>: white space and line terminators are dropped at both ends.
  Characters are eight-bit here, so the white space is TAB, LF, VT, FF, CR, SPACE and NBSP.
\<close>

definition is_js_space :: "char \<Rightarrow> bool" where
  "is_js_space c = (of_char c \<in> {9, 10, 11, 12, 13, 32, 160 :: nat})"

definition trim :: "string \<Rightarrow> string" where
  "trim s = rev (dropWhile is_js_space (rev (dropWhile is_js_space s)))"

text \<open>\<open>s.split(/\r?\n/)\<close>: a line feed ends a line, together with a carriage return just before it.\<close>

fun split_lines :: "string \<Rightarrow> string list" where
  "split_lines [] = [[]]"
| "split_lines [c] = (if c = CHR 0x0A then [[], []] else [[c]])"
| "split_lines (c # d # cs) =
     (if c = CHR 0x0A then [] # split_lines (d # cs)
      else if c = CHR 0x0D \<and> d = CHR 0x0A then [] # split_lines cs
      else (case split_lines (d # cs) of
              [] \<Rightarrow> [[c]]
            | l # ls \<Rightarrow> (c # l) # ls))"

text \<open>\<open>s.split("\t")\<close>.\<close>

fun split_tab :: "string \<Rightarrow> string list" where
  "split_tab [] = [[]]"
| "split_tab (c # cs) =
     (if c = CHR 0x09 then [] # split_tab cs
      else (case split_tab cs of
              [] \<Rightarrow> [[c]]
            | l # ls \<Rightarrow> (c # l) # ls))"

text \<open>\<open>xs[i]\<close>: \<open>undefined\<close> out of range.\<close>

definition js_nth :: "'a list \<Rightarrow> nat \<Rightarrow> 'a option" where
  "js_nth xs i = (if i < length xs then Some (xs ! i) else None)"

text \<open>\<open>xs.findIndex(p)\<close>: the first index where \<open>p\<close> holds, or \<open>-1\<close>.\<close>

fun findIndex :: "('a \<Rightarrow> bool) \<Rightarrow> 'a list \<Rightarrow> int" where
  "findIndex p [] = - 1"
| "findIndex p (x # xs) =
     (if p x then 0 else (let i = findIndex p xs in if i < 0 then - 1 else i + 1))"

text \<open>\<open>obj[key] = v\<close> on an object literal under construction.\<close>

fun obj_set :: "(string \<times> 'v) list \<Rightarrow> string \<Rightarrow> 'v \<Rightarrow> (string \<times> 'v) list" where
  "obj_set [] k v = [(k, v)]"
| "obj_set ((k', v') # kvs) k v =
     (if k' = k then (k, v) # kvs else (k', v') # obj_set kvs k v)"


text \<open>
  The pattern every function of \<open>api.ts\<close> ends with:
  \<^verbatim>\<open>if (!res.ok) throw new Error(msg); return res.json();\<close>
  applied to the outcome of the awaited \<open>fetch\<close>.
\<close>

definition await_json :: "string \<Rightarrow> 'a http \<Rightarrow> js_error + 'a" where
  "await_json msg h =
     (case h of
        Rejected e \<Rightarrow> Inl e
      | Response ok body \<Rightarrow> if \<not> ok then Inl (new_Error msg) else body)"

section \<open>Data of the front end (\<open>api.ts\<close>)\<close>

datatype EntityName =
  regions | districts | landmarks | poles | junction_boxes | components | credentials

text \<open>\<open>ExcelSheet\<close> and \<open>ExcelRow\<close> of \<open>api.ts\<close>; the field \<open>id\<close> is \<open>id_sheet\<close>, \<open>id_row\<close>.\<close>

record ExcelSheet =
  id_sheet :: int
  workbook_id :: int
  name :: string
  header_row :: "int option"
  max_row :: "int option"
  max_col :: "int option"
  columns :: "string list"

record 'n ExcelRow =
  id_row :: int
  sheet_id :: int
  row_index :: int
  data :: "'n object"

record ActiveCell =
  rowId :: int
  col :: string

record EditingCell =
  rowIndex :: nat
  column :: string

datatype sort_dir = asc | desc

text \<open>The argument of \<open>listExcelRows\<close>, after its defaults.\<close>

record rows_query =
  q_sheetId :: int
  q_limit :: int
  q_offset :: int
  q_q :: "string option"
  q_sortCol :: "string option"
  q_sortDir :: sort_dir

text \<open>An uploaded \<open>File\<close>, and the answer of \<open>/import/detect-schema\<close> as the component reads it.\<close>

record File =
  file_name :: string
  file_bytes :: "nat list"

record schema =
  detected_type :: string
  sheets :: "string list"

text \<open>The payload of \<open>createAuditLog\<close>, as \<open>logAction\<close> fills it.\<close>

record audit_payload =
  au_username :: string
  au_action :: string
  au_entity_type :: string
  au_description :: "string option"
  au_timestamp :: string

section \<open>The back end and the browser, as parameters\<close>

text \<open>
  The HTTP back end is not part of these sources. Each endpoint the modelled handlers
  call is a function from the server's state (of any type \<open>'st\<close>) and the request to the
  outcome of the \<open>fetch\<close> and the server's next state. The audit log is a separate sink:
  its endpoint answers without touching \<open>'st\<close>.
\<close>

record ('n, 'st) backend =
  excel_rows_patch :: "'st \<Rightarrow> string option \<Rightarrow> int \<Rightarrow> 'n object \<Rightarrow> 'n ExcelRow http \<times> 'st"
  excel_rows_get :: "'st \<Rightarrow> rows_query \<Rightarrow> 'n ExcelRow list http \<times> 'st"
  entities_get :: "'st \<Rightarrow> EntityName \<Rightarrow> nat \<Rightarrow> nat \<Rightarrow> 'n object list http \<times> 'st"
  entities_post :: "'st \<Rightarrow> EntityName \<Rightarrow> 'n jsval \<Rightarrow> 'n jsval http \<times> 'st"
  entities_put :: "'st \<Rightarrow> string option \<Rightarrow> EntityName \<Rightarrow> 'n \<Rightarrow> 'n jsval \<Rightarrow> 'n jsval http \<times> 'st"
  entities_patch :: "'st \<Rightarrow> string option \<Rightarrow> EntityName \<Rightarrow> 'n jsval \<Rightarrow> 'n object \<Rightarrow> 'n jsval http \<times> 'st"
  entities_delete :: "'st \<Rightarrow> EntityName \<Rightarrow> 'n \<Rightarrow> 'n jsval http \<times> 'st"
  import_auto_post :: "'st \<Rightarrow> 'n object http \<times> 'st"
  search_global_get :: "'st \<Rightarrow> string \<Rightarrow> nat \<Rightarrow> 'n jsval http \<times> 'st"
  search_excel_get :: "'st \<Rightarrow> string \<Rightarrow> 'n jsval http \<times> 'st"
  detect_schema_post :: "'st \<Rightarrow> File \<Rightarrow> schema http \<times> 'st"
  upload_and_import_post :: "'st \<Rightarrow> File \<Rightarrow> string \<Rightarrow> string \<Rightarrow> 'n jsval http \<times> 'st"

text \<open>
  What the browser supplies: the stored token, the clock, the built-in conversions
  (\<open>num_falsy\<close> says which numbers are falsy: zero and NaN), \<open>confirm\<close>, and the answer
  of the audit endpoint to a payload, \<open>None\<close> when that request never settles (no caller
  awaits it).
\<close>

record 'n env =
  token :: "string option"
  now_iso :: string
  Number_of :: "string \<Rightarrow> 'n"
  String_of :: "'n jsval \<Rightarrow> string"
  JSON_parse :: "string \<Rightarrow> js_error + 'n jsval"
  JSON_stringify :: "'n jsval \<Rightarrow> string"
  JSON_stringify_indent :: "'n jsval \<Rightarrow> string"
  num_falsy :: "'n \<Rightarrow> bool"
  confirm :: "string \<Rightarrow> bool"
  audit_logs_post :: "audit_payload \<Rightarrow> 'n jsval http option"

section \<open>The state of the \<open>App\<close> component\<close>

text \<open>
  The \<open>useState\<close> cells the modelled handlers read or write (\<open>data\<close> is \<open>table_data\<close>,
  \<open>user?.username\<close> is \<open>user_username\<close>), and the lines written to the console.
\<close>

record 'n App =
  user_username :: "string option"
  selected :: EntityName
  table_data :: "'n object list"
  loading :: bool
  error :: "string option"
  success :: "string option"
  jsonInput :: string
  updateId :: string
  deleteId :: string
  editingCell :: "EditingCell option"
  editValue :: string
  globalSearchTerm :: string
  globalSearchResults :: "'n jsval option"
  excelSearchResults :: "'n jsval option"
  showGlobalSearch :: bool
  importLoading :: bool
  importResult :: "string option"
  uploadedFile :: "File option"
  fileSchema :: "schema option"
  selectedSheet :: string
  importType :: string
  fileImportLoading :: bool
  fileImportResult :: "'n jsval option"
  excelSheets :: "ExcelSheet list"
  excelSheetId :: "int option"
  excelRows :: "'n ExcelRow list"
  excelLoading :: bool
  excelQ :: string
  excelSortCol :: string
  excelSortDir :: sort_dir
  excelOffset :: int
  excelLimit :: int
  excelActiveCell :: "ActiveCell option"
  excelEditValue :: string
  excelPasteText :: string
  console :: "(string \<times> js_error) list"


section \<open>\<open>api.ts\<close>: CSV export\<close>

text \<open>\<open>xs.join(sep)\<close> on strings.\<close>

fun join :: "string \<Rightarrow> string list \<Rightarrow> string" where
  "join sep [] = []"
| "join sep [x] = x"
| "join sep (x # y # ys) = x @ sep @ join sep (y # ys)"

text \<open>\<open>set.add(k)\<close> on a \<open>Set\<close>, which keeps insertion order.\<close>

definition set_add :: "string list \<Rightarrow> string \<Rightarrow> string list" where
  "set_add ks k = (if k \<in> set ks then ks else ks @ [k])"

text \<open>\<open>r[k]\<close> on an object: \<open>undefined\<close> for a key it does not have.\<close>

definition js_get :: "'n object \<Rightarrow> string \<Rightarrow> 'n jsval" where
  "js_get r k = (case map_of r k of None \<Rightarrow> JUndefined | Some v \<Rightarrow> v)"

definition csv_keys :: "'n object list \<Rightarrow> string list" where
  \<comment> \<open>\<^verbatim>\<open>Array.from(rows.reduce((set, r) => { Object.keys(r).forEach((k) => set.add(k)); return set; }, new Set()))\<close>\<close>
  "csv_keys rows = fold (\<lambda>r ks. fold (\<lambda>k ks'. set_add ks' k) (map fst r) ks) rows []"

definition double_quotes :: "string \<Rightarrow> string" where
  \<comment> \<open>\<^verbatim>\<open>s.replace(/"/g, '""')\<close>\<close>
  "double_quotes s = concat (map (\<lambda>c. if c = CHR 0x22 then [CHR 0x22, CHR 0x22] else [c]) s)"

definition needs_quotes :: "string \<Rightarrow> bool" where
  \<comment> \<open>\<^verbatim>\<open>/[",\n]/.test(s)\<close>\<close>
  "needs_quotes s = list_ex (\<lambda>c. c = CHR 0x22 \<or> c = CHR 0x2C \<or> c = CHR 0x0A) s"

definition escape :: "'n env \<Rightarrow> 'n jsval \<Rightarrow> string" where
  "escape ev v =
     (if v = JNull \<or> v = JUndefined then []
      else (let s = String_of ev v
            in if needs_quotes s then [CHR 0x22] @ double_quotes s @ [CHR 0x22] else s))"

text \<open>
  \<open>downloadCsv\<close>: nothing for an empty list of rows, else the download offered to the
  browser: the file name and the CSV text.
\<close>

definition downloadCsv :: "'n env \<Rightarrow> string \<Rightarrow> 'n object list \<Rightarrow> (string \<times> string) option" where
  "downloadCsv ev filename rows =
     (if rows = [] then None
      else (let keys = csv_keys rows
            in Some (filename,
                 join [CHR 0x0A]
                   (join [CHR 0x2C] keys #
                    map (\<lambda>r. join [CHR 0x2C] (map (\<lambda>k. escape ev (js_get r k)) keys)) rows))))"

section \<open>\<open>api.ts\<close>: the calls the handlers make\<close>

definition patchExcelRow ::
  "('n, 'st) backend \<Rightarrow> 'n env \<Rightarrow> 'st \<Rightarrow> int \<Rightarrow> 'n object \<Rightarrow> (js_error + 'n ExcelRow) \<times> 'st" where
  "patchExcelRow be ev st rid payload =
     (case excel_rows_patch be st (token ev) rid payload of
        (h, st') \<Rightarrow> (await_json (''Failed to update Excel row '' @ show_int rid) h, st'))"

definition listExcelRows ::
  "('n, 'st) backend \<Rightarrow> 'st \<Rightarrow> rows_query \<Rightarrow> (js_error + 'n ExcelRow list) \<times> 'st" where
  "listExcelRows be st args =
     (case excel_rows_get be st args of
        (h, st') \<Rightarrow> (await_json ''Failed to list Excel rows'' h, st'))"

definition createAuditLog :: "'n env \<Rightarrow> audit_payload \<Rightarrow> (js_error + 'n jsval) option" where
  "createAuditLog ev payload =
     map_option (await_json ''Failed to create audit log'') (audit_logs_post ev payload)"

text \<open>The entity name as it stands in a URL and in a message.\<close>

fun entity_str :: "EntityName \<Rightarrow> string" where
  "entity_str regions = ''regions''"
| "entity_str districts = ''districts''"
| "entity_str landmarks = ''landmarks''"
| "entity_str poles = ''poles''"
| "entity_str junction_boxes = ''junction-boxes''"
| "entity_str components = ''components''"
| "entity_str credentials = ''credentials''"

definition fetchEntities ::
  "('n, 'st) backend \<Rightarrow> 'st \<Rightarrow> EntityName \<Rightarrow> nat \<Rightarrow> (js_error + 'n object list) \<times> 'st" where
  "fetchEntities be st entity skip =
     (case entities_get be st entity (if entity = components then 200 else 500) skip of
        (h, st') \<Rightarrow> (await_json (''Failed to fetch '' @ entity_str entity) h, st'))"


definition updateEntity ::
  "('n, 'st) backend \<Rightarrow> 'n env \<Rightarrow> 'st \<Rightarrow> EntityName \<Rightarrow> 'n \<Rightarrow> 'n jsval \<Rightarrow> (js_error + 'n jsval) \<times> 'st" where
  "updateEntity be ev st entity i payload =
     (case entities_put be st (token ev) entity i payload of
        (h, st') \<Rightarrow>
          (await_json (''Update failed: '' @ entity_str entity @ '' '' @ String_of ev (JNum i)) h, st'))"

definition patchEntity ::
  "('n, 'st) backend \<Rightarrow> 'n env \<Rightarrow> 'st \<Rightarrow> EntityName \<Rightarrow> 'n jsval \<Rightarrow> 'n object \<Rightarrow> (js_error + 'n jsval) \<times> 'st" where
  "patchEntity be ev st entity i payload =
     (case entities_patch be st (token ev) entity i payload of
        (h, st') \<Rightarrow>
          (await_json (''Patch failed: '' @ entity_str entity @ '' '' @ String_of ev i) h, st'))"

text \<open>\<open>deleteEntity\<close> does not read the body: it returns \<open>true\<close> after an \<open>ok\<close> response.\<close>

definition deleteEntity ::
  "('n, 'st) backend \<Rightarrow> 'n env \<Rightarrow> 'st \<Rightarrow> EntityName \<Rightarrow> 'n \<Rightarrow> (js_error + bool) \<times> 'st" where
  "deleteEntity be ev st entity i =
     (case entities_delete be st entity i of
        (Rejected e, st') \<Rightarrow> (Inl e, st')
      | (Response ok body, st') \<Rightarrow>
          (if \<not> ok
           then Inl (new_Error (''Delete failed: '' @ entity_str entity @ '' '' @ String_of ev (JNum i)))
           else Inr True, st'))"


definition globalSearch ::
  "('n, 'st) backend \<Rightarrow> 'st \<Rightarrow> string \<Rightarrow> (js_error + 'n jsval) \<times> 'st" where
  "globalSearch be st query =
     (case search_global_get be st query 100 of (h, st') \<Rightarrow> (await_json ''Search failed'' h, st'))"

definition searchExcelByValue ::
  "('n, 'st) backend \<Rightarrow> 'st \<Rightarrow> string \<Rightarrow> (js_error + 'n jsval) \<times> 'st" where
  "searchExcelByValue be st query =
     (case search_excel_get be st query of (h, st') \<Rightarrow> (await_json ''Excel search failed'' h, st'))"

definition detectFileSchema :: "('n, 'st) backend \<Rightarrow> 'st \<Rightarrow> File \<Rightarrow> (js_error + schema) \<times> 'st" where
  "detectFileSchema be st file =
     (case detect_schema_post be st file of
        (h, st') \<Rightarrow> (await_json ''Failed to detect file schema'' h, st'))"

text \<open>\<open>v\<close> is falsy.\<close>

definition falsy :: "'n env \<Rightarrow> 'n jsval \<Rightarrow> bool" where
  "falsy ev v =
     (case v of
        JUndefined \<Rightarrow> True
      | JNull \<Rightarrow> True
      | JBool b \<Rightarrow> \<not> b
      | JNum n \<Rightarrow> num_falsy ev n
      | JStr s \<Rightarrow> s = []
      | JArr _ \<Rightarrow> False
      | JObj _ \<Rightarrow> False)"

text \<open>
  \<open>uploadAndImport\<close>: on a response that is not \<open>ok\<close> the message is the \<open>detail\<close> of the
  body, or \<open>Import failed\<close> when the body is not JSON or has no truthy \<open>detail\<close>; reading
  \<open>detail\<close> of \<open>null\<close> throws a \<open>TypeError\<close>.
\<close>

definition import_error :: "'n env \<Rightarrow> js_error + 'n jsval \<Rightarrow> js_error" where
  "import_error ev body =
     (case body of
        Inl _ \<Rightarrow> new_Error ''Import failed''
      | Inr JNull \<Rightarrow> JsError ''TypeError'' ''Cannot read properties of null (reading 'detail')''
      | Inr JUndefined \<Rightarrow> JsError ''TypeError'' ''Cannot read properties of undefined (reading 'detail')''
      | Inr (JObj kvs) \<Rightarrow>
          (if falsy ev (js_get kvs ''detail'') then new_Error ''Import failed''
           else new_Error (String_of ev (js_get kvs ''detail'')))
      | Inr _ \<Rightarrow> new_Error ''Import failed'')"

definition uploadAndImport ::
  "('n, 'st) backend \<Rightarrow> 'n env \<Rightarrow> 'st \<Rightarrow> File \<Rightarrow> string \<Rightarrow> string \<Rightarrow> (js_error + 'n jsval) \<times> 'st" where
  "uploadAndImport be ev st file sheetName importType' =
     (case upload_and_import_post be st file sheetName importType' of
        (Rejected e, st') \<Rightarrow> (Inl e, st')
      | (Response ok body, st') \<Rightarrow> (if \<not> ok then Inl (import_error ev body) else body, st'))"

section \<open>The \<open>App\<close> component: audit logging and the raw Excel viewer\<close>

text \<open>
  \<open>logAction\<close>: the whole body is a \<open>try\<close> whose \<open>catch\<close> only writes to the console. No
  caller awaits it; the model runs it at the call.
\<close>

definition logAction :: "'n env \<Rightarrow> 'n App \<Rightarrow> string \<Rightarrow> string \<Rightarrow> string option \<Rightarrow> 'n App" where
  "logAction ev s action entityType description =
     (case createAuditLog ev
        \<lparr>au_username = (case user_username s of None \<Rightarrow> ''unknown'' | Some u \<Rightarrow> or_str u ''unknown''),
         au_action = action,
         au_entity_type = entityType,
         au_description = description,
         au_timestamp = now_iso ev\<rparr> of
        Some (Inl e) \<Rightarrow> s\<lparr>console := console s @ [(''Audit log failed:'', e)]\<rparr>
      | Some (Inr _) \<Rightarrow> s
      | None \<Rightarrow> s)"

text \<open>\<open>if (excelSheetId)\<close>: \<open>null\<close> and \<open>0\<close> are falsy.\<close>

definition truthy_id :: "int option \<Rightarrow> bool" where
  "truthy_id i = (case i of None \<Rightarrow> False | Some n \<Rightarrow> n \<noteq> 0)"

definition excelActiveSheet :: "'n App \<Rightarrow> ExcelSheet option" where
  "excelActiveSheet s =
     (if \<not> truthy_id (excelSheetId s) then None
      else find (\<lambda>sh. Some (id_sheet sh) = excelSheetId s) (excelSheets s))"

definition excelColumns :: "'n App \<Rightarrow> string list" where
  "excelColumns s =
     (let cols = filter (\<lambda>c. c \<noteq> [])
                   (case excelActiveSheet s of None \<Rightarrow> [] | Some sh \<Rightarrow> columns sh)
      in if cols \<noteq> [] then cols
         else sort (remdups (concat (map (\<lambda>r. map fst (data r)) (excelRows s)))))"

definition loadExcelRows :: "('n, 'st) backend \<Rightarrow> 'n App \<Rightarrow> 'st \<Rightarrow> int \<Rightarrow> 'n App \<times> 'st" where
  "loadExcelRows be s st sheetId =
     (case listExcelRows be st
             \<lparr>q_sheetId = sheetId, q_limit = excelLimit s, q_offset = excelOffset s,
              q_q = (if excelQ s = [] then None else Some (excelQ s)),
              q_sortCol = (if excelSortCol s = [] then None else Some (excelSortCol s)),
              q_sortDir = excelSortDir s\<rparr> of
        (Inr rows, st') \<Rightarrow> (s\<lparr>excelRows := rows, excelLoading := False\<rparr>, st')
      | (Inl e, st') \<Rightarrow>
          (s\<lparr>error := Some (''Failed to load Excel rows: '' @ or_str (message e) (String_error e)),
             excelLoading := False\<rparr>, st'))"

definition reloadExcelRows :: "('n, 'st) backend \<Rightarrow> 'n App \<Rightarrow> 'st \<Rightarrow> 'n App \<times> 'st" where
  \<comment> \<open>\<^verbatim>\<open>if (excelSheetId) await loadExcelRows(excelSheetId);\<close>\<close>
  "reloadExcelRows be s st =
     (case excelSheetId s of
        None \<Rightarrow> (s, st)
      | Some i \<Rightarrow> if i = 0 then (s, st) else loadExcelRows be s st i)"

definition handleExcelCellSave :: "('n, 'st) backend \<Rightarrow> 'n env \<Rightarrow> 'n App \<Rightarrow> 'st \<Rightarrow> 'n App \<times> 'st" where
  "handleExcelCellSave be ev s st =
     (case excelActiveCell s of
        None \<Rightarrow> (s, st)
      | Some ac \<Rightarrow>
          (case patchExcelRow be ev st (rowId ac) [(col ac, JStr (excelEditValue s))] of
             (Inl e, st1) \<Rightarrow>
               (s\<lparr>error := Some (or_str (message e) ''Failed to update Excel cell'')\<rparr>, st1)
           | (Inr _, st1) \<Rightarrow>
               (case reloadExcelRows be
                       (logAction ev (s\<lparr>error := None\<rparr>) ''UPDATE'' ''excel''
                          (Some (''Updated Excel row '' @ show_int (rowId ac))))
                       st1 of
                  (s2, st2) \<Rightarrow> (s2\<lparr>success := Some ''Excel cell updated''\<rparr>, st2))))"

text \<open>
  The inner loop of \<open>applyExcelPasteTSV\<close>, over the cells of one pasted line; \<open>c\<close> is the
  loop index, \<open>if (!key) break\<close> leaves at a missing or empty column name.
\<close>

fun build_patch :: "string list \<Rightarrow> nat \<Rightarrow> string list \<Rightarrow> nat \<Rightarrow> 'n object \<Rightarrow> 'n object" where
  "build_patch cols startColIndex [] c patch = patch"
| "build_patch cols startColIndex (v # vs) c patch =
     (case js_nth cols (startColIndex + c) of
        None \<Rightarrow> patch
      | Some key \<Rightarrow>
          if key = [] then patch
          else build_patch cols startColIndex vs (Suc c) (obj_set patch key (JStr v)))"

text \<open>
  The outer loop, over the pasted lines; \<open>r\<close> is the loop index. It returns the error that
  left the loop (if any), the server's state, and the patch requests sent, in order.
\<close>

fun paste_rows ::
  "('n, 'st) backend \<Rightarrow> 'n env \<Rightarrow> 'n ExcelRow list \<Rightarrow> string list \<Rightarrow> nat \<Rightarrow> nat \<Rightarrow>
   string list list \<Rightarrow> nat \<Rightarrow> 'st \<Rightarrow> js_error option \<times> 'st \<times> (int \<times> 'n object) list" where
  "paste_rows be ev rows cols startRowIndex startColIndex [] r st = (None, st, [])"
| "paste_rows be ev rows cols startRowIndex startColIndex (g # gs) r st =
     (case js_nth rows (startRowIndex + r) of
        None \<Rightarrow> (None, st, [])
      | Some targetRow \<Rightarrow>
          (let patch = build_patch cols startColIndex g 0 [] in
           if patch = [] then paste_rows be ev rows cols startRowIndex startColIndex gs (Suc r) st
           else (case patchExcelRow be ev st (id_row targetRow) patch of
                   (Inl e, st') \<Rightarrow> (Some e, st', [(id_row targetRow, patch)])
                 | (Inr _, st') \<Rightarrow>
                     (case paste_rows be ev rows cols startRowIndex startColIndex gs (Suc r) st' of
                        (e, st'', sent) \<Rightarrow> (e, st'', (id_row targetRow, patch) # sent)))))"

definition paste_grid :: "string \<Rightarrow> string list list" where
  \<comment> \<open>\<^verbatim>\<open>text.split(/\r?\n/).filter(Boolean).map((ln) => ln.split("\t"))\<close>\<close>
  "paste_grid txt = map split_tab (filter (\<lambda>ln. ln \<noteq> []) (split_lines txt))"

definition startRowIndex :: "'n App \<Rightarrow> nat" where
  "startRowIndex s =
     (case excelActiveCell s of
        None \<Rightarrow> 0
      | Some ac \<Rightarrow> nat (max 0 (findIndex (\<lambda>r. id_row r = rowId ac) (excelRows s))))"

definition startColIndex :: "'n App \<Rightarrow> nat" where
  "startColIndex s =
     (case excelActiveCell s of
        None \<Rightarrow> 0
      | Some ac \<Rightarrow> nat (max 0 (findIndex (\<lambda>c. c = col ac) (excelColumns s))))"

text \<open>
  \<open>applyExcelPasteTSV\<close>: the new state of the component, the server's state, and the
  patch requests sent.
\<close>

definition applyExcelPasteTSV ::
  "('n, 'st) backend \<Rightarrow> 'n env \<Rightarrow> 'n App \<Rightarrow> 'st \<Rightarrow> 'n App \<times> 'st \<times> (int \<times> 'n object) list" where
  "applyExcelPasteTSV be ev s st =
     (let txt = trim (excelPasteText s) in
      if txt = [] then (s, st, [])
      else if excelRows s = [] \<or> excelColumns s = [] then (s, st, [])
      else if filter (\<lambda>ln. ln \<noteq> []) (split_lines txt) = [] then (s, st, [])
      else
        (case paste_rows be ev (excelRows s) (excelColumns s) (startRowIndex s) (startColIndex s)
                (paste_grid txt) 0 st of
           (Some e, st1, sent) \<Rightarrow>
             (s\<lparr>error := Some (or_str (message e) ''Paste failed''), excelLoading := False\<rparr>,
              st1, sent)
         | (None, st1, sent) \<Rightarrow>
             (case reloadExcelRows be (s\<lparr>excelLoading := True\<rparr>) st1 of
                (s2, st2) \<Rightarrow>
                  ((logAction ev s2 ''UPDATE'' ''excel'' (Some ''Bulk paste TSV''))
                     \<lparr>success := Some ''Pasted TSV into visible rows'', excelLoading := False\<rparr>,
                   st2, sent))))"


fun run_patches ::
  "('n, 'st) backend \<Rightarrow> 'n env \<Rightarrow> 'st \<Rightarrow> (int \<times> 'n object) list \<Rightarrow>
   (js_error + 'n ExcelRow) list \<times> 'st" where
  "run_patches be ev st [] = ([], st)"
| "run_patches be ev st ((rid, p) # reqs) =
     (case patchExcelRow be ev st rid p of
        (res, st') \<Rightarrow> (case run_patches be ev st' reqs of (ress, st'') \<Rightarrow> (res # ress, st'')))"

definition App_init :: "'n App" where
  "App_init =
     \<lparr>user_username = None, selected = components, table_data = [], loading = False,
      error = None, success = None, jsonInput = ''{}'', updateId = [], deleteId = [],
      editingCell = None, editValue = [], globalSearchTerm = [], globalSearchResults = None,
      excelSearchResults = None, showGlobalSearch = False, importLoading = False,
      importResult = None, uploadedFile = None, fileSchema = None, selectedSheet = ''auto'',
      importType = ''auto'', fileImportLoading = False, fileImportResult = None,
      excelSheets = [], excelSheetId = None, excelRows = [], excelLoading = False,
      excelQ = [], excelSortCol = [], excelSortDir = asc, excelOffset = 0, excelLimit = 200,
      excelActiveCell = None, excelEditValue = [], excelPasteText = [], console = []\<rparr>"

section \<open>The \<open>App\<close> component: the entity table\<close>




text \<open>
  The value \<open>handleCellSave\<close> sends for an edited cell: by the type of the value the cell
  had, a number (\<open>null\<close> for an empty edit), a boolean, or the text as typed.
\<close>

definition cell_value :: "'n env \<Rightarrow> 'n jsval \<Rightarrow> string \<Rightarrow> 'n jsval" where
  "cell_value ev originalValue ed =
     (case originalValue of
        JNum _ \<Rightarrow> if ed = [] then JNull else JNum (Number_of ev ed)
      | JBool _ \<Rightarrow> JBool (ed = ''true'' \<or> ed = ''1'')
      | _ \<Rightarrow> JStr ed)"

text \<open>
  \<open>handleCellSave\<close>. When \<open>data[rowIndex]\<close> is \<open>undefined\<close>, reading its \<open>id\<close> throws
  outside the \<open>try\<close>: nothing is sent and the state stays as it is.
\<close>

definition handleCellSave :: "('n, 'st) backend \<Rightarrow> 'n env \<Rightarrow> 'n App \<Rightarrow> 'st \<Rightarrow> 'n App \<times> 'st" where
  "handleCellSave be ev s st =
     (case editingCell s of
        None \<Rightarrow> (s, st)
      | Some ec \<Rightarrow>
          (case js_nth (table_data s) (rowIndex ec) of
             None \<Rightarrow> (s, st)
           | Some row \<Rightarrow>
               if falsy ev (js_get row ''id'')
               then (s\<lparr>error := Some ''Cannot edit row without ID'', editingCell := None\<rparr>, st)
               else
                 (case patchEntity be ev st (selected s) (js_get row ''id'')
                         [(column ec, cell_value ev (js_get row (column ec)) (editValue s))] of
                    (Inl e, st1) \<Rightarrow>
                      (s\<lparr>error := Some (or_str (message e) ''Failed to update cell'')\<rparr>, st1)
                  | (Inr _, st1) \<Rightarrow>
                      (let s1 = logAction ev (s\<lparr>error := None\<rparr>) ''UPDATE'' (entity_str (selected s))
                                  (Some (''Updated '' @ column ec @ '' for ID '' @
                                         String_of ev (js_get row ''id'')))
                       in case fetchEntities be st1 (selected s) 0 of
                            (Inl e, st2) \<Rightarrow>
                              (s1\<lparr>error := Some (or_str (message e) ''Failed to update cell'')\<rparr>, st2)
                          | (Inr refreshed, st2) \<Rightarrow>
                              (s1\<lparr>table_data := refreshed, editingCell := None,
                                  success := Some ''Cell updated successfully!''\<rparr>, st2)))))"

section \<open>The \<open>App\<close> component: global search\<close>

text \<open>
  \<open>handleGlobalSearch\<close>. \<open>Promise.all\<close> starts both searches; when one of them fails the
  whole \<open>await\<close> fails, here with the error of the structured search if both do.
\<close>

definition handleGlobalSearch :: "('n, 'st) backend \<Rightarrow> 'n env \<Rightarrow> 'n App \<Rightarrow> 'st \<Rightarrow> 'n App \<times> 'st" where
  "handleGlobalSearch be ev s st =
     (if trim (globalSearchTerm s) = []
      then (s\<lparr>globalSearchResults := None, excelSearchResults := None,
               showGlobalSearch := False\<rparr>, st)
      else
        (case globalSearch be st (globalSearchTerm s) of
           (r1, st1) \<Rightarrow>
             (case searchExcelByValue be st1 (globalSearchTerm s) of
                (r2, st2) \<Rightarrow>
                  (case (r1, r2) of
                     (Inr results, Inr excelResults) \<Rightarrow>
                       ((logAction ev
                           (s\<lparr>globalSearchResults := Some results,
                               excelSearchResults := Some excelResults,
                               showGlobalSearch := True\<rparr>)
                           ''SEARCH'' ''global'' (Some (globalSearchTerm s)))
                          \<lparr>loading := False\<rparr>, st2)
                   | (Inl e, _) \<Rightarrow>
                       (s\<lparr>error := Some (''Search failed: '' @ message e), loading := False\<rparr>, st2)
                   | (Inr _, Inl e) \<Rightarrow>
                       (s\<lparr>error := Some (''Search failed: '' @ message e), loading := False\<rparr>, st2)))))"

section \<open>The \<open>App\<close> component: import\<close>


definition handleFileSelect :: "('n, 'st) backend \<Rightarrow> 'n App \<Rightarrow> 'st \<Rightarrow> File option \<Rightarrow> 'n App \<times> 'st" where
  "handleFileSelect be s st file =
     (case file of
        None \<Rightarrow> (s\<lparr>uploadedFile := None, fileSchema := None, fileImportResult := None\<rparr>, st)
      | Some f \<Rightarrow>
          (case detectFileSchema be st f of
             (Inr sc, st1) \<Rightarrow>
               (s\<lparr>uploadedFile := Some f, error := None, fileSchema := Some sc,
                   importType := detected_type sc,
                   selectedSheet := (case sheets sc of [] \<Rightarrow> ''auto'' | x # _ \<Rightarrow> or_str x ''auto'')\<rparr>,
                st1)
           | (Inl e, st1) \<Rightarrow>
               (s\<lparr>uploadedFile := Some f, fileSchema := None,
                   error := Some (''Failed to detect schema: '' @ message e)\<rparr>, st1)))"

definition handleFileImport :: "('n, 'st) backend \<Rightarrow> 'n env \<Rightarrow> 'n App \<Rightarrow> 'st \<Rightarrow> 'n App \<times> 'st" where
  "handleFileImport be ev s st =
     (case uploadedFile s of
        None \<Rightarrow> (s\<lparr>error := Some ''No file selected''\<rparr>, st)
      | Some f \<Rightarrow>
          (case uploadAndImport be ev st f (selectedSheet s) (importType s) of
             (Inr result, st1) \<Rightarrow>
               (s\<lparr>error := None, fileImportResult := Some result,
                   success := Some ''File imported successfully!'',
                   uploadedFile := None, fileSchema := None, fileImportLoading := False\<rparr>, st1)
           | (Inl e, st1) \<Rightarrow>
               (s\<lparr>error := Some (''Import failed: '' @ message e), fileImportResult := None,
                   fileImportLoading := False\<rparr>, st1)))"

text \<open>
  The rendered import panel:
  \<^verbatim>\<open>{fileSchema && ( ... <button onClick={handleFileImport} disabled={fileImportLoading}> ... )}\<close>
  The button \<open>Import File\<close> is only there when \<open>fileSchema\<close> is set, and a click on it
  does something only when it is there and enabled.
\<close>

definition import_file_offered :: "'n App \<Rightarrow> bool" where
  "import_file_offered s = (fileSchema s \<noteq> None)"

definition click_import_file :: "('n, 'st) backend \<Rightarrow> 'n env \<Rightarrow> 'n App \<Rightarrow> 'st \<Rightarrow> 'n App \<times> 'st" where
  "click_import_file be ev s st =
     (if import_file_offered s \<and> \<not> fileImportLoading s then handleFileImport be ev s st
      else (s, st))"

section \<open>The raw row store behind the Excel endpoints\<close>

text \<open>
  Modelled from the spec: the raw row store and its patch operations (sections 3 and 4.6).
  The HTTP back end that serves \<open>PATCH /excel/rows/{id}\<close> is not part of these sources.
  The spec: a Row has an id, its sheet_id, its row_index and a data mapping from column
  name to cell value; a single-cell patch, given a Row id and a column name, overwrites
  exactly that value, fails with NotFound if the id does not exist and with UnknownColumn
  if the column is absent from the sheet's column list.
\<close>

record 'n raw_store =
  store_sheets :: "ExcelSheet list"
  store_rows :: "'n ExcelRow list"

datatype patch_error = NotFound | UnknownColumn

definition sheet_columns :: "'n raw_store \<Rightarrow> int \<Rightarrow> string list" where
  "sheet_columns st sid =
     (case find (\<lambda>sh. id_sheet sh = sid) (store_sheets st) of
        None \<Rightarrow> []
      | Some sh \<Rightarrow> columns sh)"

definition patchRow :: "'n raw_store \<Rightarrow> int \<Rightarrow> string \<Rightarrow> 'n jsval \<Rightarrow> patch_error + 'n raw_store" where
  "patchRow st rid c v =
     (case find (\<lambda>r. id_row r = rid) (store_rows st) of
        None \<Rightarrow> Inl NotFound
      | Some row \<Rightarrow>
          if c \<notin> set (sheet_columns st (sheet_id row)) then Inl UnknownColumn
          else Inr (st\<lparr>store_rows :=
                        map (\<lambda>r. if id_row r = rid then r\<lparr>data := obj_set (data r) c v\<rparr> else r)
                          (store_rows st)\<rparr>))"

text \<open>
  Modelled from the spec: one \<open>PATCH\<close> request carries the cells of one row; they are
  patched one by one, and the first failure rejects the request and leaves the store as
  it was.
\<close>

fun patchRow_cells :: "'n raw_store \<Rightarrow> int \<Rightarrow> 'n object \<Rightarrow> patch_error + 'n raw_store" where
  "patchRow_cells st rid [] =
     (case find (\<lambda>r. id_row r = rid) (store_rows st) of
        None \<Rightarrow> Inl NotFound
      | Some _ \<Rightarrow> Inr st)"
| "patchRow_cells st rid ((c, v) # kvs) =
     (case patchRow st rid c v of
        Inl e \<Rightarrow> Inl e
      | Inr st' \<Rightarrow> patchRow_cells st' rid kvs)"

definition store_excel_rows_patch ::
  "'n raw_store \<Rightarrow> string option \<Rightarrow> int \<Rightarrow> 'n object \<Rightarrow> 'n ExcelRow http \<times> 'n raw_store" where
  "store_excel_rows_patch st tok rid payload =
     (case patchRow_cells st rid payload of
        Inl NotFound \<Rightarrow> (Response False (Inl (new_Error ''NotFound'')), st)
      | Inl UnknownColumn \<Rightarrow> (Response False (Inl (new_Error ''UnknownColumn'')), st)
      | Inr st' \<Rightarrow>
          (case find (\<lambda>r. id_row r = rid) (store_rows st') of
             None \<Rightarrow> (Response False (Inl (new_Error ''NotFound'')), st)
           | Some row \<Rightarrow> (Response True (Inr row), st')))"

section \<open>Global search over both representations\<close>

text \<open>
  Modelled from the spec: global search (section 4.6). The HTTP back end that serves
  \<open>/search/global\<close> and \<open>/search/excel-by-value\<close> is not part of these sources. The spec:
  given a query string, structured entities are searched by substring match across the
  name and code fields of each entity type, and raw rows, independently, by substring
  match across all cell values in all sheets; both result sets are returned without
  correlating them. \<open>txt\<close> is the text of a value, a parameter. The spec gives the
  search no limit, so the \<open>limit\<close> the front end sends plays no part here.
\<close>

definition contains_str :: "string \<Rightarrow> string \<Rightarrow> bool" where
  "contains_str q s = list_ex (\<lambda>i. take (length q) (drop i s) = q) [0..<Suc (length s)]"

definition name_code_fields :: "string list" where
  "name_code_fields = [''name'', ''code'', ''component_code'']"

record 'n search_store =
  ss_entities :: "EntityName \<Rightarrow> 'n object list"
  ss_rows :: "'n ExcelRow list"

definition search_structured ::
  "('n jsval \<Rightarrow> string) \<Rightarrow> string \<Rightarrow> (EntityName \<Rightarrow> 'n object list) \<Rightarrow> EntityName \<Rightarrow> 'n object list" where
  "search_structured txt q ents ty =
     filter (\<lambda>e. list_ex (\<lambda>k. case map_of e k of
                                  None \<Rightarrow> False
                                | Some v \<Rightarrow> contains_str q (txt v)) name_code_fields)
       (ents ty)"

definition search_raw :: "('n jsval \<Rightarrow> string) \<Rightarrow> string \<Rightarrow> 'n ExcelRow list \<Rightarrow> 'n ExcelRow list" where
  "search_raw txt q rows = filter (\<lambda>r. list_ex (\<lambda>(k, v). contains_str q (txt v)) (data r)) rows"

definition search ::
  "('n jsval \<Rightarrow> string) \<Rightarrow> string \<Rightarrow> 'n search_store \<Rightarrow>
   (EntityName \<Rightarrow> 'n object list) \<times> 'n ExcelRow list" where
  "search txt q st = (search_structured txt q (ss_entities st), search_raw txt q (ss_rows st))"

section \<open>The structured entities and the upsert engine\<close>

text \<open>
  Modelled from the spec: the Reconciliation/Upsert Engine (section 4.5), the walk of a
  structured importer over the rows of a sheet (section 4.4) and the patch of a
  structured field (sections 4.6 and 8). The back end that serves the entity endpoints
  and \<open>/import/auto\<close> is not part of these sources. The spec: \<open>upsert(entity_type,
  natural_key, fields, parent_ref) -> (entity, created)\<close> looks an entity up by its natural
  key scoped to its parent; if found, fields are merged (non-null incoming values
  overwrite, null or blank incoming values never erase existing data); if not found, a
  new entity is created with the given parent reference. An importer upserts, for each
  row, the ancestor chain of the row from the root down, each entity under the one
  upserted before it; a row without the identifying columns of an ancestor is skipped
  with its reason and the import goes on.

  The store is keyed by the scoped natural key, so a key resolves to at most one entity
  and no parent is ever ambiguous; \<open>store_keys\<close> lists the keys in order of creation.
  A value is blank when it is \<open>null\<close>, \<open>undefined\<close> or a string that is empty once trimmed.
\<close>

type_synonym 'n fields = "string \<rightharpoonup> 'n jsval"

type_synonym natural_key = "EntityName \<times> nat option \<times> string"

record 'n entity =
  ent_id :: nat
  ent_fields :: "'n fields"

record 'n entity_store =
  store_keys :: "natural_key list"
  store_ents :: "natural_key \<rightharpoonup> 'n entity"
  next_id :: nat

definition is_blank :: "'n jsval \<Rightarrow> bool" where
  "is_blank v = (case v of JNull \<Rightarrow> True | JUndefined \<Rightarrow> True | JStr s \<Rightarrow> trim s = [] | _ \<Rightarrow> False)"

definition merge_fields :: "'n fields \<Rightarrow> 'n fields \<Rightarrow> 'n fields" where
  "merge_fields old incoming =
     (\<lambda>f. case incoming f of
            None \<Rightarrow> old f
          | Some v \<Rightarrow> if is_blank v then old f else Some v)"

definition upsert ::
  "'n entity_store \<Rightarrow> EntityName \<Rightarrow> string \<Rightarrow> 'n fields \<Rightarrow> nat option \<Rightarrow>
   'n entity_store \<times> 'n entity \<times> bool" where
  "upsert st ty key fs parent =
     (case store_ents st (ty, parent, key) of
        Some e \<Rightarrow>
          (st\<lparr>store_ents := (store_ents st)
                 ((ty, parent, key) \<mapsto> e\<lparr>ent_fields := merge_fields (ent_fields e) fs\<rparr>)\<rparr>,
           e\<lparr>ent_fields := merge_fields (ent_fields e) fs\<rparr>, False)
      | None \<Rightarrow>
          (st\<lparr>store_keys := store_keys st @ [(ty, parent, key)],
              store_ents := (store_ents st)
                 ((ty, parent, key) \<mapsto> \<lparr>ent_id = next_id st, ent_fields = merge_fields Map.empty fs\<rparr>),
              next_id := Suc (next_id st)\<rparr>,
           \<lparr>ent_id = next_id st, ent_fields = merge_fields Map.empty fs\<rparr>, True))"

text \<open>
  The chain of one row, root first: entity type, natural key and mapped fields of each
  entity. It returns the store and the numbers of entities created and updated.
\<close>

type_synonym 'n chain = "(EntityName \<times> string \<times> 'n fields) list"

fun import_chain :: "'n entity_store \<Rightarrow> nat option \<Rightarrow> 'n chain \<Rightarrow> 'n entity_store \<times> nat \<times> nat" where
  "import_chain st parent [] = (st, 0, 0)"
| "import_chain st parent ((ty, key, fs) # rest) =
     (case upsert st ty key fs parent of
        (st1, e, c) \<Rightarrow>
          (case import_chain st1 (Some (ent_id e)) rest of
             (st2, cr, up) \<Rightarrow> (st2, if c then Suc cr else cr, if c then up else Suc up)))"

record import_summary =
  created :: nat
  updated :: nat
  skipped :: "string list"

text \<open>A row is its chain, or the reason it is skipped for (\<open>MissingParentKey\<close>).\<close>

fun import_rows :: "'n entity_store \<Rightarrow> (string + 'n chain) list \<Rightarrow> 'n entity_store \<times> import_summary" where
  "import_rows st [] = (st, \<lparr>created = 0, updated = 0, skipped = []\<rparr>)"
| "import_rows st (Inl reason # rows) =
     (case import_rows st rows of
        (st', sm) \<Rightarrow> (st', sm\<lparr>skipped := reason # skipped sm\<rparr>))"
| "import_rows st (Inr ch # rows) =
     (case import_chain st None ch of
        (st1, cr, up) \<Rightarrow>
          (case import_rows st1 rows of
             (st2, sm) \<Rightarrow> (st2, sm\<lparr>created := cr + created sm, updated := up + updated sm\<rparr>)))"

text \<open>
  Modelled from the spec: the patch of structured fields of the entity with a given id
  and type. It fails with \<open>NotFound\<close> if there is no such entity; the incoming fields are
  merged by the sparse-update policy.
\<close>

definition patch_entity ::
  "'n entity_store \<Rightarrow> EntityName \<Rightarrow> nat \<Rightarrow> 'n object \<Rightarrow> patch_error + 'n entity_store" where
  "patch_entity st ty i payload =
     (case find (\<lambda>k. fst k = ty \<and> (case store_ents st k of None \<Rightarrow> False | Some e \<Rightarrow> ent_id e = i))
             (store_keys st) of
        None \<Rightarrow> Inl NotFound
      | Some k \<Rightarrow>
          (case store_ents st k of
             None \<Rightarrow> Inl NotFound
           | Some e \<Rightarrow>
               Inr (st\<lparr>store_ents := (store_ents st)
                          (k \<mapsto> e\<lparr>ent_fields := merge_fields (ent_fields e) (map_of payload)\<rparr>)\<rparr>)))"

text \<open>
  The effect of \<open>PATCH /{entity}/{id}\<close> on the store; \<open>id_of\<close> reads the id of the URL
  (a parameter: the number type is one).
\<close>

definition store_entities_patch ::
  "('n jsval \<Rightarrow> nat option) \<Rightarrow> 'n entity_store \<Rightarrow> string option \<Rightarrow> EntityName \<Rightarrow> 'n jsval \<Rightarrow>
   'n object \<Rightarrow> 'n jsval http \<times> 'n entity_store" where
  "store_entities_patch id_of st tok ty i payload =
     (case id_of i of
        None \<Rightarrow> (Response False (Inl (new_Error ''NotFound'')), st)
      | Some n \<Rightarrow>
          (case patch_entity st ty n payload of
             Inl _ \<Rightarrow> (Response False (Inl (new_Error ''NotFound'')), st)
           | Inr st' \<Rightarrow> (Response True (Inr i), st')))"

text \<open>The fields stored under a key (none when there is no entity).\<close>

definition flds :: "'n entity_store \<Rightarrow> natural_key \<Rightarrow> 'n fields" where
  "flds st k = (case store_ents st k of None \<Rightarrow> Map.empty | Some e \<Rightarrow> ent_fields e)"

section \<open>Concrete inputs for the worked examples\<close>

text \<open>A back end none of whose endpoints can be reached: every \<open>fetch\<close> rejects.\<close>

definition unreachable :: "js_error" where
  "unreachable = JsError ''TypeError'' ''Failed to fetch''"

definition offline_backend :: "('n, 'st) backend" where
  "offline_backend =
     \<lparr>excel_rows_patch = (\<lambda>st tok rid p. (Rejected unreachable, st)),
      excel_rows_get = (\<lambda>st q. (Rejected unreachable, st)),
      entities_get = (\<lambda>st e l k. (Rejected unreachable, st)),
      entities_post = (\<lambda>st e v. (Rejected unreachable, st)),
      entities_put = (\<lambda>st tok e i v. (Rejected unreachable, st)),
      entities_patch = (\<lambda>st tok e i v. (Rejected unreachable, st)),
      entities_delete = (\<lambda>st e i. (Rejected unreachable, st)),
      import_auto_post = (\<lambda>st. (Rejected unreachable, st)),
      search_global_get = (\<lambda>st q l. (Rejected unreachable, st)),
      search_excel_get = (\<lambda>st q. (Rejected unreachable, st)),
      detect_schema_post = (\<lambda>st f. (Rejected unreachable, st)),
      upload_and_import_post = (\<lambda>st f sh ty. (Rejected unreachable, st))\<rparr>"

text \<open>
  The Excel endpoints over the raw row store: the patch above, and a listing that
  answers with the rows of the sheet, paged by offset and limit.
\<close>

definition store_excel_rows_get ::
  "'n raw_store \<Rightarrow> rows_query \<Rightarrow> 'n ExcelRow list http \<times> 'n raw_store" where
  "store_excel_rows_get st q =
     (Response True
        (Inr (take (nat (q_limit q))
                (drop (nat (q_offset q))
                   (filter (\<lambda>r. sheet_id r = q_sheetId q) (store_rows st))))), st)"

definition excel_backend :: "('n, 'n raw_store) backend" where
  "excel_backend =
     offline_backend\<lparr>excel_rows_patch := store_excel_rows_patch,
                      excel_rows_get := store_excel_rows_get\<rparr>"

text \<open>\<open>String(v)\<close> on values whose numbers are integers.\<close>

fun String_int :: "int jsval \<Rightarrow> string" where
  "String_int JUndefined = ''undefined''"
| "String_int JNull = ''null''"
| "String_int (JBool b) = (if b then ''true'' else ''false'')"
| "String_int (JNum n) = show_int n"
| "String_int (JStr s) = s"
| "String_int (JArr xs) =
     join [CHR 0x2C] (map (\<lambda>x. if x = JNull \<or> x = JUndefined then [] else String_int x) xs)"
| "String_int (JObj kvs) = ''[object Object]''"

definition example_env :: "int env" where
  "example_env =
     \<lparr>token = Some ''t0'', now_iso = ''2024-01-01T00:00:00.000Z'',
      Number_of = (\<lambda>s. 0), String_of = String_int, JSON_parse = (\<lambda>s. Inr JNull),
      JSON_stringify = String_int, JSON_stringify_indent = String_int,
      num_falsy = (\<lambda>n. n = 0), confirm = (\<lambda>s. True),
      audit_logs_post = (\<lambda>p. Some (Rejected unreachable))\<rparr>"

definition example_sheet :: ExcelSheet where
  "example_sheet =
     \<lparr>id_sheet = 1, workbook_id = 1, name = ''Sheet1'', header_row = Some 1,
      max_row = Some 7, max_col = Some 2, columns = [''name'', ''code'']\<rparr>"

definition example_row :: "int \<Rightarrow> int ExcelRow" where
  "example_row i =
     \<lparr>id_row = 100 + i, sheet_id = 1, row_index = i,
      data = [(''name'', JStr ''n''), (''code'', JStr ''c'')]\<rparr>"

definition example_rows :: "int ExcelRow list" where
  "example_rows = map example_row [1, 2, 3, 4, 5, 6]"

definition example_store :: "int raw_store" where
  "example_store = \<lparr>store_sheets = [example_sheet], store_rows = example_rows\<rparr>"

text \<open>
  The viewer showing the six rows of the sheet, the cell (row 5, \<open>name\<close>) selected, and
  three lines of two cells each in the paste box.
\<close>

definition example_paste :: "int App" where
  "example_paste =
     App_init\<lparr>excelSheets := [example_sheet], excelSheetId := Some 1,
              excelRows := example_rows,
              excelActiveCell := Some \<lparr>rowId = 105, col = ''name''\<rparr>,
              excelPasteText := ''A'' @ [CHR 0x09] @ ''B'' @ [CHR 0x0A] @
                                ''C'' @ [CHR 0x09] @ ''D'' @ [CHR 0x0A] @
                                ''E'' @ [CHR 0x09] @ ''F''\<rparr>"

text \<open>The same viewer when row 105 has meanwhile been deleted on the server, anchored at row 4.\<close>

definition example_store_without_105 :: "int raw_store" where
  "example_store_without_105 =
     \<lparr>store_sheets = [example_sheet],
      store_rows = filter (\<lambda>r. id_row r \<noteq> 105) example_rows\<rparr>"

definition example_paste_at_104 :: "int App" where
  "example_paste_at_104 = example_paste\<lparr>excelActiveCell := Some \<lparr>rowId = 104, col = ''name''\<rparr>\<rparr>"

text \<open>The same viewer with no cell selected, and with a selected cell that is not loaded.\<close>

definition example_paste_unanchored :: "int App" where
  "example_paste_unanchored = example_paste\<lparr>excelActiveCell := None\<rparr>"

definition example_paste_stale_anchor :: "int App" where
  "example_paste_stale_anchor =
     example_paste\<lparr>excelActiveCell := Some \<lparr>rowId = 999, col = ''city''\<rparr>\<rparr>"

text \<open>Two table rows with different keys, a comma, a quotation mark and a \<open>null\<close>.\<close>

definition example_table :: "int object list" where
  "example_table =
     [[(''id'', JNum 1), (''name'', JStr ''a,b'')],
      [(''name'', JStr (''say '' @ [CHR 0x22] @ ''hi'' @ [CHR 0x22])), (''note'', JNull)]]"

section \<open>Comparing two runs of a handler\<close>

text \<open>Two outcomes of a handler agree in the server's state and in every cell of the component's state; the console is left out.\<close>

definition equal_but_console :: "'n App \<times> 'st \<Rightarrow> 'n App \<times> 'st \<Rightarrow> bool" where
  "equal_but_console r1 r2 =
     (snd r1 = snd r2 \<and> (fst r1)\<lparr>console := []\<rparr> = (fst r2)\<lparr>console := []\<rparr>)"


section \<open>What an edit of a raw row may change\<close>

text \<open>The store with the data of the rows whose id is in \<open>ids\<close> blanked: what remains is everything an edit of those rows has to leave alone.\<close>

definition blank_data :: "int set \<Rightarrow> 'n raw_store \<Rightarrow> 'n raw_store" where
  "blank_data ids st =
     st\<lparr>store_rows := map (\<lambda>r. if id_row r \<in> ids then r\<lparr>data := []\<rparr> else r) (store_rows st)\<rparr>"

text \<open>The id, sheet and position of every row, in stored order.\<close>

definition row_positions :: "'n raw_store \<Rightarrow> (int \<times> int \<times> int) list" where
  "row_positions st = map (\<lambda>r. (id_row r, sheet_id r, row_index r)) (store_rows st)"

text \<open>A sheet one of whose columns is itself named \<open>row_index\<close>, and the viewer editing that cell of row 3.\<close>

definition example_sheet_ri :: ExcelSheet where
  "example_sheet_ri = example_sheet\<lparr>columns := [''name'', ''row_index'']\<rparr>"

definition example_store_ri :: "int raw_store" where
  "example_store_ri = \<lparr>store_sheets = [example_sheet_ri], store_rows = example_rows\<rparr>"

definition example_edit_ri :: "int App" where
  "example_edit_ri =
     App_init\<lparr>excelSheets := [example_sheet_ri], excelSheetId := Some 1,
              excelRows := example_rows,
              excelActiveCell := Some \<lparr>rowId = 103, col = ''row_index''\<rparr>,
              excelEditValue := ''99''\<rparr>"

text \<open>
  A back end whose upload endpoint accepts every file and keeps it, while schema detection
  cannot be reached; the server's state is the list of ingested files.
\<close>

definition example_file :: File where
  "example_file = \<lparr>file_name = ''inventory.xlsx'', file_bytes = [80, 75, 3, 4]\<rparr>"

definition ingest_backend :: "(int, File list) backend" where
  "ingest_backend =
     offline_backend\<lparr>upload_and_import_post :=
                        (\<lambda>st f sh ty. (Response True (Inr (JStr ''imported'')), st @ [f]))\<rparr>"

text \<open>The same back end with a detection that answers with a type no importer knows.\<close>

definition ingest_backend_unknown :: "(int, File list) backend" where
  "ingest_backend_unknown =
     ingest_backend\<lparr>detect_schema_post :=
                       (\<lambda>st f. (Response True (Inr \<lparr>detected_type = ''unknown'', sheets = [''Sheet1'']\<rparr>),
                                st))\<rparr>"

text \<open>
  The search endpoints over the store of the spec's search, with the structured matches
  encoded by entity type and the raw matches row by row.
\<close>

definition all_entity_names :: "EntityName list" where
  "all_entity_names = [regions, districts, landmarks, poles, junction_boxes, components, credentials]"

definition encode_structured :: "(EntityName \<Rightarrow> int object list) \<Rightarrow> int jsval" where
  "encode_structured f = JObj (map (\<lambda>ty. (entity_str ty, JArr (map JObj (f ty)))) all_entity_names)"

definition encode_raw :: "int ExcelRow list \<Rightarrow> int jsval" where
  "encode_raw rows =
     JArr (map (\<lambda>r. JObj [(''id'', JNum (id_row r)), (''sheet_id'', JNum (sheet_id r)),
                           (''row_index'', JNum (row_index r)), (''data'', JObj (data r))]) rows)"

definition search_backend :: "(int, int search_store) backend" where
  "search_backend =
     offline_backend
       \<lparr>search_global_get :=
          (\<lambda>st q lim. (Response True
                          (Inr (encode_structured (search_structured String_int q (ss_entities st)))), st)),
        search_excel_get :=
          (\<lambda>st q. (Response True (Inr (encode_raw (search_raw String_int q (ss_rows st)))), st))\<rparr>"

definition example_search_store :: "int search_store" where
  "example_search_store =
     \<lparr>ss_entities =
        (\<lambda>ty. if ty = regions
               then [[(''id'', JNum 1), (''name'', JStr ''North Region''), (''code'', JStr ''NR'')],
                     [(''id'', JNum 2), (''name'', JStr ''South''), (''code'', JStr ''SO'')]]
               else []),
      ss_rows = [\<lparr>id_row = 7, sheet_id = 1, row_index = 1,
                   data = [(''site'', JStr ''Northgate''), (''ip'', JStr ''10.0.0.7'')]\<rparr>,
                 \<lparr>id_row = 8, sheet_id = 1, row_index = 2,
                   data = [(''site'', JStr ''Dock''), (''ip'', JStr ''10.0.0.8'')]\<rparr>]\<rparr>"

section \<open>Two relations between stores, for the re-import proof\<close>

text \<open>\<open>below S E\<close>: every entity of \<open>S\<close> is in \<open>E\<close> under the same key with the same identifier.\<close>

definition below :: "'n entity_store \<Rightarrow> 'n entity_store \<Rightarrow> bool" where
  "below S E =
     (\<forall>k e. store_ents S k = Some e \<longrightarrow> (\<exists>e'. store_ents E k = Some e' \<and> ent_id e' = ent_id e))"

text \<open>
  \<open>replays E S T\<close>: \<open>T\<close> has the keys, identifiers and counter of \<open>E\<close>, and every field of
  \<open>T\<close> holds what it holds in \<open>S\<close> or what it holds in \<open>E\<close>. It relates the first import
  at some row (\<open>S\<close>), its final store (\<open>E\<close>) and the second import at the same row (\<open>T\<close>).
\<close>

definition replays :: "'n entity_store \<Rightarrow> 'n entity_store \<Rightarrow> 'n entity_store \<Rightarrow> bool" where
  "replays E S T =
     (store_keys T = store_keys E \<and> next_id T = next_id E
      \<and> (\<forall>k. (store_ents T k = None) = (store_ents E k = None))
      \<and> (\<forall>k a b. store_ents T k = Some a \<longrightarrow> store_ents E k = Some b \<longrightarrow> ent_id a = ent_id b)
      \<and> (\<forall>k f. flds T k f = flds S k f \<or> flds T k f = flds E k f))"

text \<open>
  An empty entity store, and the rows of a hierarchy sheet: two landmarks of one district
  of one region, and a row without its region.
\<close>

definition empty_store :: "int entity_store" where
  "empty_store = \<lparr>store_keys = [], store_ents = Map.empty, next_id = 1\<rparr>"

definition example_hierarchy :: "(string + int chain) list" where
  "example_hierarchy =
     [Inr [(regions, ''North'', [''name'' \<mapsto> JStr ''North'']),
           (districts, ''D1'', [''name'' \<mapsto> JStr ''D1'', ''code'' \<mapsto> JStr ''D1'']),
           (landmarks, ''L1'', [''name'' \<mapsto> JStr ''L1'', ''lat'' \<mapsto> JNum 34])],
      Inr [(regions, ''North'', [''name'' \<mapsto> JStr ''North'']),
           (districts, ''D1'', [''name'' \<mapsto> JStr ''D1'', ''code'' \<mapsto> JNull]),
           (landmarks, ''L2'', [''name'' \<mapsto> JStr ''L2''])],
      Inl ''MissingParentKey'']"

text \<open>
  The entity endpoints over the entity store: the patch of the spec, with the id of the
  URL read as a natural number, and a listing that answers with no rows. The table shows
  the district as fetched before, with its \<open>code\<close> cell open and emptied.
\<close>

definition id_int :: "int jsval \<Rightarrow> nat option" where
  "id_int v = (case v of JNum n \<Rightarrow> if 0 \<le> n then Some (nat n) else None | _ \<Rightarrow> None)"

definition entity_backend :: "(int, int entity_store) backend" where
  "entity_backend =
     offline_backend\<lparr>entities_patch := store_entities_patch id_int,
                      entities_get := (\<lambda>st ty l k. (Response True (Inr []), st))\<rparr>"

definition example_entities :: "int entity_store" where
  "example_entities = fst (import_rows empty_store example_hierarchy)"

definition example_blank_edit :: "int App" where
  "example_blank_edit =
     App_init\<lparr>selected := districts,
              table_data := [[(''id'', JNum 2), (''name'', JStr ''D1''), (''code'', JStr ''D1'')]],
              editingCell := Some \<lparr>rowIndex = 0, column = ''code''\<rparr>,
              editValue := []\<rparr>"

section \<open>Properties of the model\<close>

subsection \<open>The loops of the bulk paste\<close>










lemma paste_rows_run:
  fixes be :: "('n, 'st) backend"
  assumes "paste_rows be ev rows cols sr sc gs r st = (e, st', sent)"
  shows "snd (run_patches be ev st sent) = st' \<and>
         (case e of
            None \<Rightarrow> list_all (\<lambda>x. \<not> isl x) (fst (run_patches be ev st sent))
          | Some err \<Rightarrow> (\<exists>oks. fst (run_patches be ev st sent) = oks @ [Inl err] \<and>
                             list_all (\<lambda>x. \<not> isl x) oks))"
  using assms
proof (induction gs arbitrary: r st e st' sent)
  case Nil
  then show ?case by simp
next
  case (Cons g gs)
  let ?p = "build_patch cols sc g 0 [] :: 'n object"
  show ?case
  proof (cases "js_nth rows (sr + r)")
    case None
    with Cons.prems show ?thesis by simp
  next
    case (Some t)
    show ?thesis
    proof (cases "?p = []")
      case True
      with Cons.prems Some have "paste_rows be ev rows cols sr sc gs (Suc r) st = (e, st', sent)"
        by (simp add: Let_def)
      from Cons.IH[OF this] show ?thesis .
    next
      case False
      obtain res st1 where res: "patchExcelRow be ev st (id_row t) ?p = (res, st1)"
        by (cases "patchExcelRow be ev st (id_row t) ?p")
      show ?thesis
      proof (cases res)
        case (Inl err)
        with Cons.prems Some False res have "sent = [(id_row t, ?p)]" "e = Some err" "st' = st1"
          by (simp_all add: Let_def)
        then show ?thesis using res Inl by simp
      next
        case (Inr row)
        obtain e2 st2 sent2 where rec: "paste_rows be ev rows cols sr sc gs (Suc r) st1 = (e2, st2, sent2)"
          by (cases "paste_rows be ev rows cols sr sc gs (Suc r) st1")
        with Cons.prems Some False res Inr
        have s: "sent = (id_row t, ?p) # sent2" "e = e2" "st' = st2"
          by (simp_all add: Let_def)
        obtain ress st3 where rp: "run_patches be ev st1 sent2 = (ress, st3)"
          by (cases "run_patches be ev st1 sent2")
        from Cons.IH[OF rec] rp have ih: "st3 = st2"
          "case e2 of None \<Rightarrow> list_all (\<lambda>x. \<not> isl x) ress
           | Some err \<Rightarrow> (\<exists>oks. ress = oks @ [Inl err] \<and> list_all (\<lambda>x. \<not> isl x) oks)"
          by (simp_all split: option.splits)
        have run: "run_patches be ev st sent = (Inr row # ress, st2)"
          using s res Inr rp ih(1) by simp
        show ?thesis
        proof (cases e2)
          case None
          with ih run s show ?thesis by simp
        next
          case (Some err)
          with ih obtain oks where "ress = oks @ [Inl err]" "list_all (\<lambda>x. \<not> isl x) oks"
            by auto
          then have "Inr row # ress = (Inr row # oks) @ [Inl err] \<and> list_all (\<lambda>x. \<not> isl x) (Inr row # oks)"
            by simp
          then show ?thesis using run s Some by (simp del: append_Cons)
        qed
      qed
    qed
  qed
qed

subsection \<open>C1: a pasted block lands on existing rows and columns only\<close>



subsection \<open>C3: a failing row leaves the earlier rows patched\<close>

text \<open>
  Claim C3. Every affected row gets a patch request of its own. When, replayed from the
  server's state before the paste, the last request sent is the one that fails, all
  earlier requests succeeded, the server ends in the state those requests produced (nothing
  is sent to undo them, and no reload follows), and the component shows the error.
\<close>

theorem paste_failure_keeps_earlier_patches:
  fixes be :: "('n, 'st) backend"
  assumes run: "applyExcelPasteTSV be ev s st = (s', st', sent)"
      and fail: "fst (run_patches be ev st sent) = oks @ [Inl e]"
  shows "st' = snd (run_patches be ev st sent)
       \<and> list_all (\<lambda>r. \<not> isl r) oks
       \<and> s' = s\<lparr>error := Some (or_str (message e) ''Paste failed''), excelLoading := False\<rparr>"
proof -
  from fail have ne: "sent \<noteq> []" by (cases sent) auto
  obtain eo st1 sent1 where pr: "paste_rows be ev (excelRows s) (excelColumns s) (startRowIndex s)
       (startColIndex s) (paste_grid (trim (excelPasteText s))) 0 st = (eo, st1, sent1)"
    by (metis prod_cases3)
  have s1: "sent1 = sent"
    using run ne pr
    by (auto simp: applyExcelPasteTSV_def Let_def split: if_splits prod.splits option.splits)
  note rr = paste_rows_run[OF pr, unfolded s1]
  have "eo = Some e \<and> list_all (\<lambda>r. \<not> isl r) oks"
  proof (cases eo)
    case None
    with rr fail have "list_all (\<lambda>x. \<not> isl x) (oks @ [Inl e])" by simp
    then show ?thesis by simp
  next
    case (Some err)
    with rr fail obtain oks' where "oks @ [Inl e] = oks' @ [Inl err]" "list_all (\<lambda>x. \<not> isl x) oks'"
      by auto
    then show ?thesis using Some by simp
  qed
  then have eo: "eo = Some e" and oks: "list_all (\<lambda>r. \<not> isl r) oks" by simp_all
  have "s' = s\<lparr>error := Some (or_str (message e) ''Paste failed''), excelLoading := False\<rparr>"
    and "st' = st1"
    using run ne pr eo
    by (auto simp: applyExcelPasteTSV_def Let_def split: if_splits prod.splits option.splits)
  then show ?thesis using rr oks by simp
qed

theorem paste_failure_keeps_earlier_patches_witness:
  "fst (run_patches excel_backend example_env example_store_without_105
          (snd (snd (applyExcelPasteTSV excel_backend example_env example_paste_at_104
                       example_store_without_105))))
     = [Inr \<lparr>id_row = 104, sheet_id = 1, row_index = 4,
              data = [(''name'', JStr ''A''), (''code'', JStr ''B'')]\<rparr>]
       @ [Inl (new_Error ''Failed to update Excel row 105'')]
   \<and> map id_row (store_rows (fst (snd (applyExcelPasteTSV excel_backend example_env
                       example_paste_at_104 example_store_without_105))))
       = [101, 102, 103, 104, 106]
   \<and> map data (store_rows (fst (snd (applyExcelPasteTSV excel_backend example_env
                       example_paste_at_104 example_store_without_105))))
       = [[(''name'', JStr ''n''), (''code'', JStr ''c'')],
          [(''name'', JStr ''n''), (''code'', JStr ''c'')],
          [(''name'', JStr ''n''), (''code'', JStr ''c'')],
          [(''name'', JStr ''A''), (''code'', JStr ''B'')],
          [(''name'', JStr ''n''), (''code'', JStr ''c'')]]
   \<and> fst (applyExcelPasteTSV excel_backend example_env example_paste_at_104
            example_store_without_105)
       = example_paste_at_104\<lparr>error := Some ''Failed to update Excel row 105'',
                               excelLoading := False\<rparr>"
proof -
  let ?run = "applyExcelPasteTSV excel_backend example_env example_paste_at_104
                example_store_without_105"
  let ?rp = "run_patches excel_backend example_env example_store_without_105 (snd (snd ?run))"
  have run: "?run = (fst ?run, fst (snd ?run), snd (snd ?run))" by simp
  have fail: "fst ?rp
     = [Inr \<lparr>id_row = 104, sheet_id = 1, row_index = 4,
              data = [(''name'', JStr ''A''), (''code'', JStr ''B'')]\<rparr>]
       @ [Inl (new_Error ''Failed to update Excel row 105'')]"
    by code_simp
  have ids: "map id_row (store_rows (snd ?rp)) = [101, 102, 103, 104, 106]" by code_simp
  have cells: "map data (store_rows (snd ?rp))
       = [[(''name'', JStr ''n''), (''code'', JStr ''c'')],
          [(''name'', JStr ''n''), (''code'', JStr ''c'')],
          [(''name'', JStr ''n''), (''code'', JStr ''c'')],
          [(''name'', JStr ''A''), (''code'', JStr ''B'')],
          [(''name'', JStr ''n''), (''code'', JStr ''c'')]]"
    by code_simp
  have msg: "or_str (message (new_Error ''Failed to update Excel row 105'')) ''Paste failed''
               = ''Failed to update Excel row 105''"
    by code_simp
  from paste_failure_keeps_earlier_patches[OF run fail]
  have "fst (snd ?run) = snd ?rp"
    and "fst ?run = example_paste_at_104\<lparr>error := Some ''Failed to update Excel row 105'',
                               excelLoading := False\<rparr>"
    unfolding msg by simp_all
  with fail ids cells show ?thesis by simp
qed

lemma findIndex_absent: "\<forall>x \<in> set xs. \<not> p x \<Longrightarrow> findIndex p xs = - 1"
  by (induction xs) (auto simp: Let_def)

lemma excelColumns_active [simp]: "excelColumns (s\<lparr>excelActiveCell := a\<rparr>) = excelColumns s"
  by (simp add: excelColumns_def excelActiveSheet_def Let_def)

lemma logAction_active:
  "logAction ev (s\<lparr>excelActiveCell := a\<rparr>) x y z = (logAction ev s x y z)\<lparr>excelActiveCell := a\<rparr>"
  by (simp add: logAction_def split: sum.splits option.splits)

lemma reloadExcelRows_active_loading:
  "reloadExcelRows be (s\<lparr>excelActiveCell := a, excelLoading := b\<rparr>) st =
     (case reloadExcelRows be (s\<lparr>excelLoading := b\<rparr>) st of
        (t, st') \<Rightarrow> (t\<lparr>excelActiveCell := a\<rparr>, st'))"
  by (simp add: reloadExcelRows_def loadExcelRows_def split: option.splits prod.splits sum.splits)

lemma findIndex_hd: "xs \<noteq> [] \<Longrightarrow> findIndex (\<lambda>x. f x = f (hd xs)) xs = 0"
  by (cases xs) auto

subsection \<open>C9: a missing anchor is the first row and the first column\<close>

text \<open>
  Claim C9. With no cell selected both anchor indices are 0; with a selected cell whose row
  is not loaded the row index is 0, and with one whose column is not shown the column
  index is 0. A paste whose anchor indices are 0 runs exactly as the paste anchored at the
  first loaded row and the first column does: the same requests, the same server state,
  the same messages.
\<close>

theorem paste_anchor_clamped_to_first_cell:
  fixes be :: "('n, 'st) backend"
  shows "(excelActiveCell s = None \<longrightarrow> startRowIndex s = 0 \<and> startColIndex s = 0)
       \<and> (\<forall>ac. excelActiveCell s = Some ac \<and> rowId ac \<notin> id_row ` set (excelRows s)
               \<longrightarrow> startRowIndex s = 0)
       \<and> (\<forall>ac. excelActiveCell s = Some ac \<and> col ac \<notin> set (excelColumns s)
               \<longrightarrow> startColIndex s = 0)
       \<and> (startRowIndex s = 0 \<and> startColIndex s = 0 \<longrightarrow>
            applyExcelPasteTSV be ev
              (s\<lparr>excelActiveCell :=
                   Some \<lparr>rowId = id_row (hd (excelRows s)), col = hd (excelColumns s)\<rparr>\<rparr>) st
            = (case applyExcelPasteTSV be ev s st of
                 (s', rest) \<Rightarrow>
                   (s'\<lparr>excelActiveCell :=
                        Some \<lparr>rowId = id_row (hd (excelRows s)), col = hd (excelColumns s)\<rparr>\<rparr>,
                    rest)))"
proof -
  let ?a = "Some \<lparr>rowId = id_row (hd (excelRows s)), col = hd (excelColumns s)\<rparr>"
  have a: "excelActiveCell s = None \<longrightarrow> startRowIndex s = 0 \<and> startColIndex s = 0"
    by (simp add: startRowIndex_def startColIndex_def)
  have b: "\<forall>ac. excelActiveCell s = Some ac \<and> rowId ac \<notin> id_row ` set (excelRows s)
               \<longrightarrow> startRowIndex s = 0"
  proof (intro allI impI, elim conjE)
    fix ac assume ac: "excelActiveCell s = Some ac" and no: "rowId ac \<notin> id_row ` set (excelRows s)"
    from no have "\<forall>r \<in> set (excelRows s). \<not> id_row r = rowId ac" by (auto simp: image_iff)
    from findIndex_absent[OF this] show "startRowIndex s = 0"
      using ac by (simp add: startRowIndex_def)
  qed
  have c: "\<forall>ac. excelActiveCell s = Some ac \<and> col ac \<notin> set (excelColumns s)
               \<longrightarrow> startColIndex s = 0"
  proof (intro allI impI, elim conjE)
    fix ac assume ac: "excelActiveCell s = Some ac" and no: "col ac \<notin> set (excelColumns s)"
    from no have "\<forall>c \<in> set (excelColumns s). \<not> c = col ac" by auto
    from findIndex_absent[OF this] show "startColIndex s = 0"
      using ac by (simp add: startColIndex_def)
  qed
  have d: "startRowIndex s = 0 \<and> startColIndex s = 0 \<longrightarrow>
            applyExcelPasteTSV be ev (s\<lparr>excelActiveCell := ?a\<rparr>) st
            = (case applyExcelPasteTSV be ev s st of
                 (s', rest) \<Rightarrow> (s'\<lparr>excelActiveCell := ?a\<rparr>, rest))"
  proof (intro impI, elim conjE)
    assume r0: "startRowIndex s = 0" and c0: "startColIndex s = 0"
    show "applyExcelPasteTSV be ev (s\<lparr>excelActiveCell := ?a\<rparr>) st
            = (case applyExcelPasteTSV be ev s st of
                 (s', rest) \<Rightarrow> (s'\<lparr>excelActiveCell := ?a\<rparr>, rest))"
    proof (cases "excelRows s = [] \<or> excelColumns s = []")
      case True
      then show ?thesis by (auto simp: applyExcelPasteTSV_def Let_def)
    next
      case False
      then have r1: "startRowIndex (s\<lparr>excelActiveCell := ?a\<rparr>) = 0"
        and c1: "startColIndex (s\<lparr>excelActiveCell := ?a\<rparr>) = 0"
        using findIndex_hd[of "excelRows s" id_row] findIndex_hd[of "excelColumns s" "\<lambda>c. c"]
        by (simp_all add: startRowIndex_def startColIndex_def)
      show ?thesis
        unfolding applyExcelPasteTSV_def Let_def
        using False r0 c0 r1 c1
        by (simp add: reloadExcelRows_active_loading logAction_active split: prod.splits option.splits)
    qed
  qed
  show ?thesis using a b c d by blast
qed

theorem paste_anchor_clamped_to_first_cell_witness:
  "startRowIndex example_paste_unanchored = 0
   \<and> startColIndex example_paste_unanchored = 0
   \<and> startRowIndex example_paste_stale_anchor = 0
   \<and> startColIndex example_paste_stale_anchor = 0
   \<and> snd (snd (applyExcelPasteTSV excel_backend example_env example_paste_unanchored
                  example_store))
       = [(101, [(''name'', JStr ''A''), (''code'', JStr ''B'')]),
          (102, [(''name'', JStr ''C''), (''code'', JStr ''D'')]),
          (103, [(''name'', JStr ''E''), (''code'', JStr ''F'')])]
   \<and> snd (applyExcelPasteTSV excel_backend example_env
            (example_paste_unanchored\<lparr>excelActiveCell := Some \<lparr>rowId = 101, col = ''name''\<rparr>\<rparr>)
            example_store)
       = snd (applyExcelPasteTSV excel_backend example_env example_paste_unanchored
                example_store)"
proof -
  let ?be = "excel_backend :: (int, int raw_store) backend"
  note th1 = paste_anchor_clamped_to_first_cell
               [where s = example_paste_unanchored and be = ?be
                  and ev = example_env and st = example_store]
  note th2 = paste_anchor_clamped_to_first_cell
               [where s = example_paste_stale_anchor and be = ?be
                  and ev = example_env and st = example_store]
  have none: "excelActiveCell example_paste_unanchored = None" by code_simp
  have stale: "excelActiveCell example_paste_stale_anchor = Some \<lparr>rowId = 999, col = ''city''\<rparr>"
    by code_simp
  have norow: "rowId \<lparr>rowId = 999, col = ''city''\<rparr> \<notin> id_row ` set (excelRows example_paste_stale_anchor)"
    by code_simp
  have nocol: "col \<lparr>rowId = 999, col = ''city''\<rparr> \<notin> set (excelColumns example_paste_stale_anchor)"
    by code_simp
  have hdr: "id_row (hd (excelRows example_paste_unanchored)) = 101" by code_simp
  have hdc: "hd (excelColumns example_paste_unanchored) = ''name''" by code_simp
  have sent: "snd (snd (applyExcelPasteTSV ?be example_env example_paste_unanchored example_store))
       = [(101, [(''name'', JStr ''A''), (''code'', JStr ''B'')]),
          (102, [(''name'', JStr ''C''), (''code'', JStr ''D'')]),
          (103, [(''name'', JStr ''E''), (''code'', JStr ''F'')])]"
    by code_simp
  from th1 none have z1: "startRowIndex example_paste_unanchored = 0"
    "startColIndex example_paste_unanchored = 0" by blast+
  from th2 stale norow nocol have z2: "startRowIndex example_paste_stale_anchor = 0"
    "startColIndex example_paste_stale_anchor = 0" by blast+
  from th1 z1 have "applyExcelPasteTSV ?be example_env
              (example_paste_unanchored\<lparr>excelActiveCell :=
                   Some \<lparr>rowId = id_row (hd (excelRows example_paste_unanchored)),
                         col = hd (excelColumns example_paste_unanchored)\<rparr>\<rparr>) example_store
            = (case applyExcelPasteTSV ?be example_env example_paste_unanchored example_store of
                 (s', rest) \<Rightarrow>
                   (s'\<lparr>excelActiveCell :=
                        Some \<lparr>rowId = id_row (hd (excelRows example_paste_unanchored)),
                              col = hd (excelColumns example_paste_unanchored)\<rparr>\<rparr>,
                    rest))"
    by blast
  then have eq: "snd (applyExcelPasteTSV ?be example_env
            (example_paste_unanchored\<lparr>excelActiveCell := Some \<lparr>rowId = 101, col = ''name''\<rparr>\<rparr>)
            example_store)
       = snd (applyExcelPasteTSV ?be example_env example_paste_unanchored example_store)"
    unfolding hdr hdc by (simp split: prod.splits)
  from z1 z2 sent eq show ?thesis by blast
qed

lemma set_add_set: "set (set_add ks k) = insert k (set ks)"
  by (auto simp: set_add_def)

lemma set_add_distinct: "distinct ks \<Longrightarrow> distinct (set_add ks k)"
  by (simp add: set_add_def)

lemma fold_set_add:
  "set (fold (\<lambda>k ks'. set_add ks' k) xs ks) = set ks \<union> set xs
   \<and> (distinct ks \<longrightarrow> distinct (fold (\<lambda>k ks'. set_add ks' k) xs ks))"
  by (induction xs arbitrary: ks) (auto simp: set_add_set set_add_distinct)

lemma fold_rows_keys:
  "set (fold (\<lambda>r ks. fold (\<lambda>k ks'. set_add ks' k) (map fst r) ks) rows ks0)
     = set ks0 \<union> (\<Union>r \<in> set rows. fst ` set r)
   \<and> (distinct ks0 \<longrightarrow>
        distinct (fold (\<lambda>r ks. fold (\<lambda>k ks'. set_add ks' k) (map fst r) ks) rows ks0))"
proof (induction rows arbitrary: ks0)
  case Nil
  then show ?case by simp
next
  case (Cons r rows)
  let ?ks1 = "fold (\<lambda>k ks'. set_add ks' k) (map fst r) ks0"
  have s1: "set ?ks1 = set ks0 \<union> fst ` set r" and d1: "distinct ks0 \<longrightarrow> distinct ?ks1"
    using fold_set_add[of "map fst r" ks0] by simp_all
  from Cons.IH[of ?ks1] s1 d1 show ?case by auto
qed

lemma csv_keys_union:
  "set (csv_keys rows) = (\<Union>r \<in> set rows. fst ` set r) \<and> distinct (csv_keys rows)"
  using fold_rows_keys[of rows "[]"] by (simp add: csv_keys_def)

lemma double_quotes_others:
  "filter (\<lambda>c. c \<noteq> CHR 0x22) (double_quotes s) = filter (\<lambda>c. c \<noteq> CHR 0x22) s"
  by (induction s) (auto simp: double_quotes_def)

lemma double_quotes_count:
  "length (filter (\<lambda>c. c = CHR 0x22) (double_quotes s)) = 2 * length (filter (\<lambda>c. c = CHR 0x22) s)"
  by (induction s) (auto simp: double_quotes_def)

lemma needs_quotes_iff:
  "needs_quotes s = (CHR 0x22 \<in> set s \<or> CHR 0x2C \<in> set s \<or> CHR 0x0A \<in> set s)"
  by (auto simp: needs_quotes_def list_ex_iff)

subsection \<open>C10: the CSV text of an export\<close>

text \<open>
  Claim C10. \<open>downloadCsv\<close> exports nothing for an empty list of rows; otherwise the text
  is the header line and one line per row, joined by line feeds, the cells of a line
  joined by commas. The header is the keys of all rows, each once. A \<open>null\<close> or
  \<open>undefined\<close> cell is the empty string; any other cell is its \<open>String\<close> form, put
  between double quotes exactly when it holds a double quote, a comma or a line feed,
  and then every double quote in it is doubled and nothing else is changed.
\<close>

theorem csv_export_format:
  "downloadCsv ev filename [] = None
   \<and> (rows \<noteq> [] \<longrightarrow>
        downloadCsv ev filename rows =
          Some (filename,
            join [CHR 0x0A]
              (join [CHR 0x2C] (csv_keys rows) #
               map (\<lambda>r. join [CHR 0x2C] (map (\<lambda>k. escape ev (js_get r k)) (csv_keys rows))) rows)))
   \<and> set (csv_keys rows) = (\<Union>r \<in> set rows. fst ` set r)
   \<and> distinct (csv_keys rows)
   \<and> escape ev JNull = []
   \<and> escape ev JUndefined = []
   \<and> (v \<noteq> JNull \<and> v \<noteq> JUndefined \<longrightarrow>
        (needs_quotes (String_of ev v) \<longrightarrow>
           escape ev v = [CHR 0x22] @ double_quotes (String_of ev v) @ [CHR 0x22])
      \<and> (\<not> needs_quotes (String_of ev v) \<longrightarrow> escape ev v = String_of ev v))
   \<and> needs_quotes s = (CHR 0x22 \<in> set s \<or> CHR 0x2C \<in> set s \<or> CHR 0x0A \<in> set s)
   \<and> filter (\<lambda>c. c \<noteq> CHR 0x22) (double_quotes s) = filter (\<lambda>c. c \<noteq> CHR 0x22) s
   \<and> length (filter (\<lambda>c. c = CHR 0x22) (double_quotes s))
       = 2 * length (filter (\<lambda>c. c = CHR 0x22) s)"
proof -
  have a: "downloadCsv ev filename [] = None"
    by (simp add: downloadCsv_def)
  have b: "rows \<noteq> [] \<longrightarrow>
        downloadCsv ev filename rows =
          Some (filename,
            join [CHR 0x0A]
              (join [CHR 0x2C] (csv_keys rows) #
               map (\<lambda>r. join [CHR 0x2C] (map (\<lambda>k. escape ev (js_get r k)) (csv_keys rows))) rows))"
    by (simp add: downloadCsv_def Let_def)
  have c: "escape ev JNull = []" "escape ev JUndefined = []"
    by (simp_all add: escape_def)
  have d: "v \<noteq> JNull \<and> v \<noteq> JUndefined \<longrightarrow>
        (needs_quotes (String_of ev v) \<longrightarrow>
           escape ev v = [CHR 0x22] @ double_quotes (String_of ev v) @ [CHR 0x22])
      \<and> (\<not> needs_quotes (String_of ev v) \<longrightarrow> escape ev v = String_of ev v)"
    by (simp add: escape_def Let_def)
  show ?thesis
    using a b c d csv_keys_union[of rows] needs_quotes_iff[of s]
      double_quotes_others[of s] double_quotes_count[of s]
    by blast
qed

theorem csv_export_format_witness:
  "example_table \<noteq> []
   \<and> downloadCsv example_env ''regions.csv'' example_table =
       Some (''regions.csv'',
         ''id,name,note'' @ [CHR 0x0A] @
         ''1,'' @ [CHR 0x22] @ ''a,b'' @ [CHR 0x22] @ '','' @ [CHR 0x0A] @
         '','' @ [CHR 0x22] @ ''say '' @ [CHR 0x22, CHR 0x22] @ ''hi'' @ [CHR 0x22, CHR 0x22, CHR 0x22] @ '','')
   \<and> csv_keys example_table = [''id'', ''name'', ''note'']
   \<and> needs_quotes (String_of example_env (JStr ''a,b''))
   \<and> escape example_env (JStr ''a,b'') = [CHR 0x22] @ ''a,b'' @ [CHR 0x22]
   \<and> \<not> needs_quotes (String_of example_env (JNum 1))
   \<and> escape example_env (JNum 1) = ''1''"
proof -
  note th = csv_export_format[where rows = example_table and ev = example_env
              and filename = "''regions.csv''" and v = "JStr ''a,b''" and s = "''a,b''"]
  note th1 = csv_export_format[where rows = example_table and ev = example_env
              and filename = "''regions.csv''" and v = "JNum 1" and s = "''a,b''"]
  have ne: "example_table \<noteq> []" by code_simp
  have keys: "csv_keys example_table = [''id'', ''name'', ''note'']" by code_simp
  have lines: "join [CHR 0x0A]
              (join [CHR 0x2C] (csv_keys example_table) #
               map (\<lambda>r. join [CHR 0x2C] (map (\<lambda>k. escape example_env (js_get r k)) (csv_keys example_table))) example_table)
     = ''id,name,note'' @ [CHR 0x0A] @
         ''1,'' @ [CHR 0x22] @ ''a,b'' @ [CHR 0x22] @ '','' @ [CHR 0x0A] @
         '','' @ [CHR 0x22] @ ''say '' @ [CHR 0x22, CHR 0x22] @ ''hi'' @ [CHR 0x22, CHR 0x22, CHR 0x22] @ '',''"
    by code_simp
  have nq: "needs_quotes (String_of example_env (JStr ''a,b''))" by code_simp
  have nq1: "\<not> needs_quotes (String_of example_env (JNum 1))" by code_simp
  have dq: "double_quotes (String_of example_env (JStr ''a,b'')) = ''a,b''" by code_simp
  have s1: "String_of example_env (JNum 1) = ''1''" by code_simp
  from th ne have dl: "downloadCsv example_env ''regions.csv'' example_table =
          Some (''regions.csv'',
            join [CHR 0x0A]
              (join [CHR 0x2C] (csv_keys example_table) #
               map (\<lambda>r. join [CHR 0x2C] (map (\<lambda>k. escape example_env (js_get r k)) (csv_keys example_table))) example_table))"
    by blast
  from th nq have e: "escape example_env (JStr ''a,b'') = [CHR 0x22] @ double_quotes (String_of example_env (JStr ''a,b'')) @ [CHR 0x22]"
    by blast
  from th1 nq1 have e1: "escape example_env (JNum 1) = String_of example_env (JNum 1)"
    by blast
  show ?thesis
    using ne keys nq nq1 dl[unfolded lines] e[unfolded dq] e1[unfolded s1] by blast
qed





lemma audit_irrelevant [simp]:
  "falsy (ev\<lparr>audit_logs_post := a\<rparr>) = falsy ev"
  "cell_value (ev\<lparr>audit_logs_post := a\<rparr>) = cell_value ev"
  "patchEntity be (ev\<lparr>audit_logs_post := a\<rparr>) = patchEntity be ev"
  "updateEntity be (ev\<lparr>audit_logs_post := a\<rparr>) = updateEntity be ev"
  "deleteEntity be (ev\<lparr>audit_logs_post := a\<rparr>) = deleteEntity be ev"
  "patchExcelRow be (ev\<lparr>audit_logs_post := a\<rparr>) = patchExcelRow be ev"
  by (simp_all add: fun_eq_iff falsy_def cell_value_def patchEntity_def updateEntity_def
        deleteEntity_def patchExcelRow_def split: jsval.splits prod.splits http.splits)

lemma equal_but_console_refl [simp]: "equal_but_console r r"
  by (simp add: equal_but_console_def)











lemma paste_rows_audit [simp]:
  "paste_rows be (ev\<lparr>audit_logs_post := a\<rparr>) rows cols sr sc gs r st
     = paste_rows be ev rows cols sr sc gs r st"
  by (induction gs arbitrary: r st)
     (simp_all add: Let_def split: option.splits prod.splits sum.splits)



subsection \<open>C8: the audit log never decides an operation\<close>



lemma row_positions_blank: "row_positions (blank_data ids st) = row_positions st"
  by (simp add: row_positions_def blank_data_def comp_def)

lemma patchRow_frame:
  assumes "patchRow st rid c v = Inr st'" and "rid \<in> ids"
  shows "blank_data ids st' = blank_data ids st"
  using assms
  by (auto simp: patchRow_def blank_data_def split: option.splits if_splits)

lemma patchRow_cells_frame:
  assumes "patchRow_cells st rid kvs = Inr st'" and "rid \<in> ids"
  shows "blank_data ids st' = blank_data ids st"
  using assms
proof (induction kvs arbitrary: st)
  case Nil
  then show ?case by (simp split: option.splits)
next
  case (Cons kv kvs)
  obtain c v where kv: "kv = (c, v)" by (cases kv)
  from Cons.prems kv obtain st1 where p: "patchRow st rid c v = Inr st1"
    and rest: "patchRow_cells st1 rid kvs = Inr st'"
    by (auto split: sum.splits)
  from Cons.IH[OF rest Cons.prems(2)] patchRow_frame[OF p Cons.prems(2)]
  show ?case by simp
qed

lemma store_excel_rows_patch_frame:
  assumes "rid \<in> ids"
  shows "blank_data ids (snd (store_excel_rows_patch st tok rid payload)) = blank_data ids st"
proof (cases "patchRow_cells st rid payload")
  case (Inl e)
  then show ?thesis by (cases e) (simp_all add: store_excel_rows_patch_def)
next
  case (Inr st')
  from patchRow_cells_frame[OF this assms] Inr show ?thesis
    by (simp add: store_excel_rows_patch_def split: option.splits)
qed

lemma run_patches_frame:
  fixes be :: "('n, 'n raw_store) backend"
  assumes "excel_rows_patch be = store_excel_rows_patch" and "fst ` set reqs \<subseteq> ids"
  shows "blank_data ids (snd (run_patches be ev st reqs)) = blank_data ids st"
  using assms(2)
proof (induction reqs arbitrary: st)
  case Nil
  then show ?case by simp
next
  case (Cons req reqs)
  obtain rid p where req: "req = (rid, p)" by (cases req)
  with Cons.prems have rid: "rid \<in> ids" and rest: "fst ` set reqs \<subseteq> ids" by auto
  let ?st1 = "snd (store_excel_rows_patch st (token ev) rid p)"
  have "snd (run_patches be ev st (req # reqs)) = snd (run_patches be ev ?st1 reqs)"
    using req assms(1) by (simp add: patchExcelRow_def split: prod.splits)
  then show ?case
    using Cons.IH[OF rest, of ?st1] store_excel_rows_patch_frame[OF rid, of st "token ev" p]
    by simp
qed

lemma listExcelRows_server:
  assumes "\<And>st q. snd (excel_rows_get be st q) = st"
  shows "snd (listExcelRows be st q) = st"
  using assms[of st q] by (cases "excel_rows_get be st q") (simp add: listExcelRows_def)

lemma loadExcelRows_server:
  assumes "\<And>st q. snd (excel_rows_get be st q) = st"
  shows "snd (loadExcelRows be s st i) = st"
proof -
  let ?q = "\<lparr>q_sheetId = i, q_limit = excelLimit s, q_offset = excelOffset s,
              q_q = (if excelQ s = [] then None else Some (excelQ s)),
              q_sortCol = (if excelSortCol s = [] then None else Some (excelSortCol s)),
              q_sortDir = excelSortDir s\<rparr>"
  obtain r st1 where l: "listExcelRows be st ?q = (r, st1)" by (metis surj_pair)
  with listExcelRows_server[OF assms, of st ?q] have "st1 = st" by simp
  with l show ?thesis by (cases r) (simp_all add: loadExcelRows_def)
qed

lemma reloadExcelRows_server:
  assumes "\<And>st q. snd (excel_rows_get be st q) = st"
  shows "snd (reloadExcelRows be s st) = st"
  by (simp add: reloadExcelRows_def loadExcelRows_server[OF assms] split: option.splits)

lemma reloadExcelRows_serverD:
  assumes "\<And>st q. snd (excel_rows_get be st q) = st" and "reloadExcelRows be s st = (t, st')"
  shows "st' = st"
  using reloadExcelRows_server[OF assms(1), of s st] assms(2) by simp

subsection \<open>C7: an edit of a raw row leaves its position alone\<close>

text \<open>
  Claim C7. Over the raw row store of the spec, with a listing endpoint that only reads:
  a cell save and a bulk paste leave the store as it was except for the data of the rows
  they patch, so every row keeps its id, its \<open>sheet_id\<close> and its \<open>row_index\<close>, in the
  same order, and so does a single \<open>patchRow\<close> of the spec.
\<close>

theorem raw_row_edit_keeps_row_index:
  fixes be :: "('n, 'n raw_store) backend"
  assumes patch: "excel_rows_patch be = store_excel_rows_patch"
      and get: "\<And>st q. snd (excel_rows_get be st q) = st"
  shows "(\<forall>ac. excelActiveCell s = Some ac \<longrightarrow>
            blank_data {rowId ac} (snd (handleExcelCellSave be ev s st)) = blank_data {rowId ac} st)
       \<and> row_positions (snd (handleExcelCellSave be ev s st)) = row_positions st
       \<and> blank_data (fst ` set (snd (snd (applyExcelPasteTSV be ev s st))))
            (fst (snd (applyExcelPasteTSV be ev s st)))
          = blank_data (fst ` set (snd (snd (applyExcelPasteTSV be ev s st)))) st
       \<and> row_positions (fst (snd (applyExcelPasteTSV be ev s st))) = row_positions st
       \<and> (\<forall>st'. patchRow st rid c v = Inr st' \<longrightarrow>
             blank_data {rid} st' = blank_data {rid} st \<and> row_positions st' = row_positions st)"
proof -
  have cell: "\<forall>ac. excelActiveCell s = Some ac \<longrightarrow>
            blank_data {rowId ac} (snd (handleExcelCellSave be ev s st)) = blank_data {rowId ac} st"
  proof (intro allI impI)
    fix ac assume ac: "excelActiveCell s = Some ac"
    let ?req = "(rowId ac, [(col ac, JStr (excelEditValue s))])"
    have "snd (handleExcelCellSave be ev s st) = snd (run_patches be ev st [?req])"
      using ac
      by (auto simp: handleExcelCellSave_def split: prod.splits sum.splits
               dest: reloadExcelRows_serverD[OF get])
    then show "blank_data {rowId ac} (snd (handleExcelCellSave be ev s st)) = blank_data {rowId ac} st"
      using run_patches_frame[OF patch, of "[?req]" "{rowId ac}" ev st] by simp
  qed
  have cellpos: "row_positions (snd (handleExcelCellSave be ev s st)) = row_positions st"
  proof (cases "excelActiveCell s")
    case None
    then show ?thesis by (simp add: handleExcelCellSave_def)
  next
    case (Some ac)
    with cell have "blank_data {rowId ac} (snd (handleExcelCellSave be ev s st)) = blank_data {rowId ac} st"
      by blast
    then show ?thesis by (metis row_positions_blank)
  qed
  let ?run = "applyExcelPasteTSV be ev s st"
  let ?sent = "snd (snd ?run)"
  have paste_st: "fst (snd ?run) = snd (run_patches be ev st ?sent)"
  proof -
    obtain eo st1 sent1 where pr: "paste_rows be ev (excelRows s) (excelColumns s) (startRowIndex s)
         (startColIndex s) (paste_grid (trim (excelPasteText s))) 0 st = (eo, st1, sent1)"
      by (metis prod_cases3)
    from paste_rows_run[OF pr] have r: "snd (run_patches be ev st sent1) = st1" by simp
    show ?thesis
      using pr r
      by (auto simp: applyExcelPasteTSV_def Let_def split: prod.splits option.splits
               dest: reloadExcelRows_serverD[OF get])
  qed
  have paste: "blank_data (fst ` set ?sent) (fst (snd ?run)) = blank_data (fst ` set ?sent) st"
    unfolding paste_st using run_patches_frame[OF patch, of ?sent "fst ` set ?sent" ev st] by simp
  then have pastepos: "row_positions (fst (snd ?run)) = row_positions st"
    by (metis row_positions_blank)
  have one: "\<forall>st'. patchRow st rid c v = Inr st' \<longrightarrow>
             blank_data {rid} st' = blank_data {rid} st \<and> row_positions st' = row_positions st"
  proof (intro allI impI)
    fix st' assume p: "patchRow st rid c v = Inr st'"
    from patchRow_frame[OF p, of "{rid}"] have "blank_data {rid} st' = blank_data {rid} st" by simp
    then show "blank_data {rid} st' = blank_data {rid} st \<and> row_positions st' = row_positions st"
      by (metis row_positions_blank)
  qed
  show ?thesis using cell cellpos paste pastepos one by blast
qed


theorem raw_row_edit_keeps_row_index_witness:
  "excel_rows_patch (excel_backend :: (int, int raw_store) backend) = store_excel_rows_patch
   \<and> excelActiveCell example_edit_ri = Some \<lparr>rowId = 103, col = ''row_index''\<rparr>
   \<and> row_positions (snd (handleExcelCellSave excel_backend example_env example_edit_ri example_store_ri))
       = [(101, 1, 1), (102, 1, 2), (103, 1, 3), (104, 1, 4), (105, 1, 5), (106, 1, 6)]
   \<and> map data (store_rows (snd (handleExcelCellSave excel_backend example_env example_edit_ri
                                  example_store_ri))) ! 2
       = [(''name'', JStr ''n''), (''code'', JStr ''c''), (''row_index'', JStr ''99'')]
   \<and> patchRow example_store_ri 103 ''row_index'' (JStr ''99'')
       = Inr (snd (handleExcelCellSave excel_backend example_env example_edit_ri example_store_ri))"
proof -
  let ?be = "excel_backend :: (int, int raw_store) backend"
  let ?st' = "snd (handleExcelCellSave ?be example_env example_edit_ri example_store_ri)"
  have patch: "excel_rows_patch ?be = store_excel_rows_patch"
    by (simp add: excel_backend_def)
  have get: "\<And>st q. snd (excel_rows_get ?be st q) = st"
    by (simp add: excel_backend_def store_excel_rows_get_def)
  have ac: "excelActiveCell example_edit_ri = Some \<lparr>rowId = 103, col = ''row_index''\<rparr>"
    by code_simp
  have pos0: "row_positions example_store_ri
       = [(101, 1, 1), (102, 1, 2), (103, 1, 3), (104, 1, 4), (105, 1, 5), (106, 1, 6)]"
    by code_simp
  have cells: "map data (store_rows ?st') ! 2
       = [(''name'', JStr ''n''), (''code'', JStr ''c''), (''row_index'', JStr ''99'')]"
    by code_simp
  have one: "patchRow example_store_ri 103 ''row_index'' (JStr ''99'') = Inr ?st'"
    by code_simp
  from raw_row_edit_keeps_row_index[OF patch get, where s = example_edit_ri and ev = example_env
         and st = example_store_ri]
  have "row_positions ?st' = row_positions example_store_ri" by blast
  with patch ac pos0 cells one show ?thesis by simp
qed

subsection \<open>C4: a failed schema detection and the import panel\<close>

text \<open>
  Claim C4 as stated fails where the detection call itself fails: with a back end whose
  upload endpoint would accept the file, the file is selected, the error is shown, the
  \<open>Import File\<close> button is not rendered, and nothing is ingested.
\<close>

theorem failed_detection_blocks_import_counterexample:
  "snd (upload_and_import_post ingest_backend [] example_file ''auto'' ''auto'') = [example_file]
   \<and> error (fst (handleFileSelect ingest_backend App_init [] (Some example_file)))
       = Some ''Failed to detect schema: Failed to fetch''
   \<and> import_file_offered (fst (handleFileSelect ingest_backend App_init [] (Some example_file))) = False
   \<and> snd (click_import_file ingest_backend example_env
             (fst (handleFileSelect ingest_backend App_init [] (Some example_file)))
             (snd (handleFileSelect ingest_backend App_init [] (Some example_file)))) = []"
  by code_simp

text \<open>
  Claim C4, amended. A failing detection call never makes \<open>handleFileSelect\<close> fail: the
  file stays selected and the message \<open>Failed to detect schema\<close> is shown; but then the
  \<open>Import File\<close> button is not rendered and a click imports nothing. When detection
  answers, whatever type it reports, the button is there, and a click (while no import is
  running) submits the selected file with the first sheet and the detected type; the
  server is left as that upload request leaves it.
\<close>

theorem detection_gates_the_import_panel:
  fixes be :: "('n, 'st) backend"
  shows "(\<forall>e st1. detectFileSchema be st f = (Inl e, st1) \<longrightarrow>
            handleFileSelect be s st (Some f)
              = (s\<lparr>uploadedFile := Some f, fileSchema := None,
                    error := Some (''Failed to detect schema: '' @ message e)\<rparr>, st1)
          \<and> \<not> import_file_offered (fst (handleFileSelect be s st (Some f)))
          \<and> click_import_file be ev (fst (handleFileSelect be s st (Some f))) st1
              = (fst (handleFileSelect be s st (Some f)), st1))
       \<and> (\<forall>sc st1. detectFileSchema be st f = (Inr sc, st1) \<longrightarrow>
            uploadedFile (fst (handleFileSelect be s st (Some f))) = Some f
          \<and> error (fst (handleFileSelect be s st (Some f))) = None
          \<and> importType (fst (handleFileSelect be s st (Some f))) = detected_type sc
          \<and> import_file_offered (fst (handleFileSelect be s st (Some f)))
          \<and> (\<not> fileImportLoading s \<longrightarrow>
               click_import_file be ev (fst (handleFileSelect be s st (Some f))) st1
                 = handleFileImport be ev (fst (handleFileSelect be s st (Some f))) st1
             \<and> snd (click_import_file be ev (fst (handleFileSelect be s st (Some f))) st1)
                 = snd (upload_and_import_post be st1 f
                          (selectedSheet (fst (handleFileSelect be s st (Some f))))
                          (detected_type sc))))"
proof -
  have a: "\<forall>e st1. detectFileSchema be st f = (Inl e, st1) \<longrightarrow>
            handleFileSelect be s st (Some f)
              = (s\<lparr>uploadedFile := Some f, fileSchema := None,
                    error := Some (''Failed to detect schema: '' @ message e)\<rparr>, st1)
          \<and> \<not> import_file_offered (fst (handleFileSelect be s st (Some f)))
          \<and> click_import_file be ev (fst (handleFileSelect be s st (Some f))) st1
              = (fst (handleFileSelect be s st (Some f)), st1)"
    by (simp add: handleFileSelect_def import_file_offered_def click_import_file_def)
  have b: "\<forall>sc st1. detectFileSchema be st f = (Inr sc, st1) \<longrightarrow>
            uploadedFile (fst (handleFileSelect be s st (Some f))) = Some f
          \<and> error (fst (handleFileSelect be s st (Some f))) = None
          \<and> importType (fst (handleFileSelect be s st (Some f))) = detected_type sc
          \<and> import_file_offered (fst (handleFileSelect be s st (Some f)))
          \<and> (\<not> fileImportLoading s \<longrightarrow>
               click_import_file be ev (fst (handleFileSelect be s st (Some f))) st1
                 = handleFileImport be ev (fst (handleFileSelect be s st (Some f))) st1
             \<and> snd (click_import_file be ev (fst (handleFileSelect be s st (Some f))) st1)
                 = snd (upload_and_import_post be st1 f
                          (selectedSheet (fst (handleFileSelect be s st (Some f))))
                          (detected_type sc)))"
    by (simp add: handleFileSelect_def import_file_offered_def click_import_file_def
          handleFileImport_def uploadAndImport_def split: prod.splits http.splits sum.splits)
  from a b show ?thesis by blast
qed

theorem detection_gates_the_import_panel_witness:
  "detectFileSchema ingest_backend [] example_file = (Inl unreachable, [])
   \<and> import_file_offered (fst (handleFileSelect ingest_backend App_init [] (Some example_file))) = False
   \<and> detectFileSchema ingest_backend_unknown [] example_file
       = (Inr \<lparr>detected_type = ''unknown'', sheets = [''Sheet1'']\<rparr>, [])
   \<and> fileImportLoading (App_init :: int App) = False
   \<and> importType (fst (handleFileSelect ingest_backend_unknown App_init [] (Some example_file)))
       = ''unknown''
   \<and> import_file_offered (fst (handleFileSelect ingest_backend_unknown App_init [] (Some example_file)))
   \<and> snd (click_import_file ingest_backend_unknown example_env
             (fst (handleFileSelect ingest_backend_unknown App_init [] (Some example_file))) [])
       = [example_file]"
proof -
  let ?s0 = "App_init :: int App"
  have d1: "detectFileSchema ingest_backend [] example_file = (Inl unreachable, [])"
    by code_simp
  have d2: "detectFileSchema ingest_backend_unknown [] example_file
       = (Inr \<lparr>detected_type = ''unknown'', sheets = [''Sheet1'']\<rparr>, [])"
    by code_simp
  have l: "fileImportLoading ?s0 = False" by code_simp
  have up: "snd (upload_and_import_post ingest_backend_unknown [] example_file
                   (selectedSheet (fst (handleFileSelect ingest_backend_unknown ?s0 [] (Some example_file))))
                   (detected_type \<lparr>detected_type = ''unknown'', sheets = [''Sheet1'']\<rparr>))
            = [example_file]"
    by code_simp
  note t1 = detection_gates_the_import_panel[where be = ingest_backend and s = ?s0 and st = "[]"
              and f = example_file and ev = example_env]
  note t2 = detection_gates_the_import_panel[where be = ingest_backend_unknown and s = ?s0
              and st = "[]" and f = example_file and ev = example_env]
  from t1 d1 have a: "import_file_offered (fst (handleFileSelect ingest_backend ?s0 [] (Some example_file))) = False"
    by blast
  from t2 d2 l have b: "importType (fst (handleFileSelect ingest_backend_unknown ?s0 [] (Some example_file)))
       = detected_type \<lparr>detected_type = ''unknown'', sheets = [''Sheet1'']\<rparr>"
    and c: "import_file_offered (fst (handleFileSelect ingest_backend_unknown ?s0 [] (Some example_file)))"
    and e: "snd (click_import_file ingest_backend_unknown example_env
             (fst (handleFileSelect ingest_backend_unknown ?s0 [] (Some example_file))) [])
       = snd (upload_and_import_post ingest_backend_unknown [] example_file
                   (selectedSheet (fst (handleFileSelect ingest_backend_unknown ?s0 [] (Some example_file))))
                   (detected_type \<lparr>detected_type = ''unknown'', sheets = [''Sheet1'']\<rparr>))"
    by blast+
  from d1 d2 l a b c e[unfolded up] show ?thesis by simp
qed

subsection \<open>C6: global search returns two result sets\<close>

text \<open>
  Claim C6 as stated fails for a blank query: the spec's search finds the region
  \<open>North Region\<close> for the query of one space, and \<open>handleGlobalSearch\<close> runs no search
  for it and clears both result sets.
\<close>

theorem blank_query_runs_no_search_counterexample:
  "trim '' '' = []
   \<and> search_structured String_int '' '' (ss_entities example_search_store) regions
       = [[(''id'', JNum 1), (''name'', JStr ''North Region''), (''code'', JStr ''NR'')]]
   \<and> globalSearchResults
        (fst (handleGlobalSearch search_backend example_env
                (App_init\<lparr>globalSearchTerm := '' ''\<rparr>) example_search_store)) = None
   \<and> excelSearchResults
        (fst (handleGlobalSearch search_backend example_env
                (App_init\<lparr>globalSearchTerm := '' ''\<rparr>) example_search_store)) = None"
  by code_simp

lemma handleGlobalSearch_both:
  assumes "trim (globalSearchTerm s) \<noteq> []"
      and "search_global_get be st (globalSearchTerm s) 100 = (Response True (Inr r1), st)"
      and "search_excel_get be st (globalSearchTerm s) = (Response True (Inr r2), st)"
  shows "handleGlobalSearch be ev s st
         = ((logAction ev
               (s\<lparr>globalSearchResults := Some r1, excelSearchResults := Some r2,
                   showGlobalSearch := True\<rparr>)
               ''SEARCH'' ''global'' (Some (globalSearchTerm s)))\<lparr>loading := False\<rparr>, st)"
  using assms
  by (simp add: handleGlobalSearch_def globalSearch_def searchExcelByValue_def await_json_def)

lemma logAction_keeps:
  "globalSearchResults (logAction ev s x y z) = globalSearchResults s"
  "excelSearchResults (logAction ev s x y z) = excelSearchResults s"
  "showGlobalSearch (logAction ev s x y z) = showGlobalSearch s"
  "error (logAction ev s x y z) = error s"
  by (simp_all add: logAction_def split: option.splits sum.splits)

text \<open>
  Claim C6, amended. Over the spec's search, for every query that is not blank after
  trimming, \<open>handleGlobalSearch\<close> returns both result sets: the structured matches (by
  substring over the name and code fields, per entity type) and the raw-row matches (by
  substring over all cell values), each as its own endpoint computed it. The structured
  set does not depend on the raw rows, nor the raw set on the entities. For a blank
  query no search runs and both result sets are cleared.
\<close>

theorem global_search_two_result_sets:
  fixes be :: "('n, 'n search_store) backend"
  assumes g: "\<And>st q lim. search_global_get be st q lim
                = (Response True (Inr (enc_s (search_structured txt q (ss_entities st)))), st)"
      and x: "\<And>st q. search_excel_get be st q
                = (Response True (Inr (enc_r (search_raw txt q (ss_rows st)))), st)"
  shows "(trim (globalSearchTerm s) \<noteq> [] \<longrightarrow>
            globalSearchResults (fst (handleGlobalSearch be ev s st))
              = Some (enc_s (fst (search txt (globalSearchTerm s) st)))
          \<and> excelSearchResults (fst (handleGlobalSearch be ev s st))
              = Some (enc_r (snd (search txt (globalSearchTerm s) st)))
          \<and> showGlobalSearch (fst (handleGlobalSearch be ev s st))
          \<and> error (fst (handleGlobalSearch be ev s st)) = error s
          \<and> (\<forall>rows'. globalSearchResults (fst (handleGlobalSearch be ev s (st\<lparr>ss_rows := rows'\<rparr>)))
                       = globalSearchResults (fst (handleGlobalSearch be ev s st)))
          \<and> (\<forall>ents'. excelSearchResults (fst (handleGlobalSearch be ev s (st\<lparr>ss_entities := ents'\<rparr>)))
                       = excelSearchResults (fst (handleGlobalSearch be ev s st))))
       \<and> (trim (globalSearchTerm s) = [] \<longrightarrow>
            handleGlobalSearch be ev s st
              = (s\<lparr>globalSearchResults := None, excelSearchResults := None,
                    showGlobalSearch := False\<rparr>, st))"
proof -
  have run: "\<And>st. trim (globalSearchTerm s) \<noteq> [] \<Longrightarrow>
      handleGlobalSearch be ev s st
         = ((logAction ev
               (s\<lparr>globalSearchResults := Some (enc_s (search_structured txt (globalSearchTerm s) (ss_entities st))),
                   excelSearchResults := Some (enc_r (search_raw txt (globalSearchTerm s) (ss_rows st))),
                   showGlobalSearch := True\<rparr>)
               ''SEARCH'' ''global'' (Some (globalSearchTerm s)))\<lparr>loading := False\<rparr>, st)"
    by (rule handleGlobalSearch_both) (simp_all add: g x)
  have blank: "trim (globalSearchTerm s) = [] \<longrightarrow>
            handleGlobalSearch be ev s st
              = (s\<lparr>globalSearchResults := None, excelSearchResults := None,
                    showGlobalSearch := False\<rparr>, st)"
    by (simp add: handleGlobalSearch_def)
  have nonblank: "trim (globalSearchTerm s) \<noteq> [] \<longrightarrow>
            globalSearchResults (fst (handleGlobalSearch be ev s st))
              = Some (enc_s (fst (search txt (globalSearchTerm s) st)))
          \<and> excelSearchResults (fst (handleGlobalSearch be ev s st))
              = Some (enc_r (snd (search txt (globalSearchTerm s) st)))
          \<and> showGlobalSearch (fst (handleGlobalSearch be ev s st))
          \<and> error (fst (handleGlobalSearch be ev s st)) = error s
          \<and> (\<forall>rows'. globalSearchResults (fst (handleGlobalSearch be ev s (st\<lparr>ss_rows := rows'\<rparr>)))
                       = globalSearchResults (fst (handleGlobalSearch be ev s st)))
          \<and> (\<forall>ents'. excelSearchResults (fst (handleGlobalSearch be ev s (st\<lparr>ss_entities := ents'\<rparr>)))
                       = excelSearchResults (fst (handleGlobalSearch be ev s st)))"
    by (simp add: run logAction_keeps search_def)
  from nonblank blank show ?thesis by blast
qed

theorem global_search_two_result_sets_witness:
  "trim (globalSearchTerm (App_init\<lparr>globalSearchTerm := ''North''\<rparr> :: int App)) \<noteq> []
   \<and> globalSearchResults
        (fst (handleGlobalSearch search_backend example_env
                (App_init\<lparr>globalSearchTerm := ''North''\<rparr>) example_search_store))
       = Some (JObj [(''regions'', JArr [JObj [(''id'', JNum 1), (''name'', JStr ''North Region''),
                                              (''code'', JStr ''NR'')]]),
                     (''districts'', JArr []), (''landmarks'', JArr []), (''poles'', JArr []),
                     (''junction-boxes'', JArr []), (''components'', JArr []),
                     (''credentials'', JArr [])])
   \<and> excelSearchResults
        (fst (handleGlobalSearch search_backend example_env
                (App_init\<lparr>globalSearchTerm := ''North''\<rparr>) example_search_store))
       = Some (JArr [JObj [(''id'', JNum 7), (''sheet_id'', JNum 1), (''row_index'', JNum 1),
                           (''data'', JObj [(''site'', JStr ''Northgate''), (''ip'', JStr ''10.0.0.7'')])]])"
proof -
  let ?s = "App_init\<lparr>globalSearchTerm := ''North''\<rparr> :: int App"
  have g: "\<And>st q lim. search_global_get search_backend st q lim
                = (Response True (Inr (encode_structured (search_structured String_int q (ss_entities st)))), st)"
    by (simp add: search_backend_def)
  have x: "\<And>st q. search_excel_get search_backend st q
                = (Response True (Inr (encode_raw (search_raw String_int q (ss_rows st)))), st)"
    by (simp add: search_backend_def)
  have nb: "trim (globalSearchTerm ?s) \<noteq> []" by code_simp
  have e1: "encode_structured (fst (search String_int (globalSearchTerm ?s) example_search_store))
       = JObj [(''regions'', JArr [JObj [(''id'', JNum 1), (''name'', JStr ''North Region''),
                                              (''code'', JStr ''NR'')]]),
                     (''districts'', JArr []), (''landmarks'', JArr []), (''poles'', JArr []),
                     (''junction-boxes'', JArr []), (''components'', JArr []),
                     (''credentials'', JArr [])]"
    by code_simp
  have e2: "encode_raw (snd (search String_int (globalSearchTerm ?s) example_search_store))
       = JArr [JObj [(''id'', JNum 7), (''sheet_id'', JNum 1), (''row_index'', JNum 1),
                           (''data'', JObj [(''site'', JStr ''Northgate''), (''ip'', JStr ''10.0.0.7'')])]]"
    by code_simp
  from global_search_two_result_sets[OF g x, where s = ?s and ev = example_env
         and st = example_search_store] nb
  have "globalSearchResults (fst (handleGlobalSearch search_backend example_env ?s example_search_store))
              = Some (encode_structured (fst (search String_int (globalSearchTerm ?s) example_search_store)))"
    and "excelSearchResults (fst (handleGlobalSearch search_backend example_env ?s example_search_store))
              = Some (encode_raw (snd (search String_int (globalSearchTerm ?s) example_search_store)))"
    by blast+
  with nb e1 e2 show ?thesis by simp
qed

lemma below_refl: "below S S"
  by (simp add: below_def)

lemma below_trans: "below A B \<Longrightarrow> below B C \<Longrightarrow> below A C"
  unfolding below_def by (metis)

lemma upsert_below:
  assumes "upsert S ty key fs p = (S', e, c)"
  shows "below S S'" and "store_ents S' (ty, p, key) = Some e"
  using assms
  by (auto simp: upsert_def below_def split: option.splits)

lemma upsert_flds:
  assumes "upsert S ty key fs p = (S', e, c)"
  shows "flds S' k = (if k = (ty, p, key) then merge_fields (flds S k) fs else flds S k)"
  using assms
  by (auto simp: upsert_def flds_def split: option.splits)

lemma import_chain_below:
  "import_chain S p ch = (S', cr, up) \<Longrightarrow> below S S'"
proof (induction ch arbitrary: S S' p cr up)
  case Nil
  then show ?case by (simp add: below_refl)
next
  case (Cons x ch)
  obtain ty key fs where x: "x = (ty, key, fs)" by (cases x)
  obtain S1 e c where u: "upsert S ty key fs p = (S1, e, c)" by (metis prod_cases3)
  obtain S2 cr2 up2 where r: "import_chain S1 (Some (ent_id e)) ch = (S2, cr2, up2)"
    by (metis prod_cases3)
  from Cons.prems x u r have "S' = S2" by simp
  with upsert_below(1)[OF u] Cons.IH[OF r] show ?case by (metis below_trans)
qed

lemma import_rows_below:
  "import_rows S rows = (S', sm) \<Longrightarrow> below S S'"
proof (induction rows arbitrary: S S' sm)
  case Nil
  then show ?case by (simp add: below_refl)
next
  case (Cons row rows)
  show ?case
  proof (cases row)
    case (Inl reason)
    with Cons.prems obtain sm' where "import_rows S rows = (S', sm')"
      by (auto split: prod.splits)
    from Cons.IH[OF this] show ?thesis .
  next
    case (Inr ch)
    obtain S1 cr up where c: "import_chain S None ch = (S1, cr, up)" by (metis prod_cases3)
    with Cons.prems Inr obtain sm' where r: "import_rows S1 rows = (S', sm')"
      by (auto split: prod.splits)
    from import_chain_below[OF c] Cons.IH[OF r] show ?thesis by (metis below_trans)
  qed
qed

lemma replays_upsert:
  assumes u: "upsert S ty key fs p = (S1, e, c)"
      and b: "below S1 E"
      and r: "replays E S T"
  shows "\<exists>T1 t. upsert T ty key fs p = (T1, t, False) \<and> ent_id t = ent_id e \<and> replays E S1 T1"
proof -
  let ?k = "(ty, p, key)"
  from upsert_below(2)[OF u] b obtain e' where e': "store_ents E ?k = Some e'" "ent_id e' = ent_id e"
    unfolding below_def by blast
  from r e' obtain t0 where t0: "store_ents T ?k = Some t0" "ent_id t0 = ent_id e"
    unfolding replays_def by (metis option.exhaust)
  let ?t = "t0\<lparr>ent_fields := merge_fields (ent_fields t0) fs\<rparr>"
  let ?T1 = "T\<lparr>store_ents := (store_ents T)(?k \<mapsto> ?t)\<rparr>"
  have uT: "upsert T ty key fs p = (?T1, ?t, False)"
    using t0 by (simp add: upsert_def)
  have fT: "\<And>k. flds ?T1 k = (if k = ?k then merge_fields (flds T k) fs else flds T k)"
    using upsert_flds[OF uT] by simp
  have fS: "\<And>k. flds S1 k = (if k = ?k then merge_fields (flds S k) fs else flds S k)"
    using upsert_flds[OF u] by simp
  have fields: "\<forall>k f. flds ?T1 k f = flds S1 k f \<or> flds ?T1 k f = flds E k f"
  proof (intro allI)
    fix k f
    from r have d: "flds T k f = flds S k f \<or> flds T k f = flds E k f"
      unfolding replays_def by blast
    show "flds ?T1 k f = flds S1 k f \<or> flds ?T1 k f = flds E k f"
    proof (cases "k = ?k")
      case False
      with d fT fS show ?thesis by simp
    next
      case True
      show ?thesis
      proof (cases "fs f")
        case None
        with d True show ?thesis unfolding fT fS by (simp add: merge_fields_def)
      next
        case (Some v)
        with d True show ?thesis unfolding fT fS by (simp add: merge_fields_def)
      qed
    qed
  qed
  have "replays E S1 ?T1"
    using r t0 e' fields unfolding replays_def by auto
  with uT t0 show ?thesis by auto
qed

lemma replays_chain:
  assumes "import_chain S p ch = (S1, cr, up)" and "below S1 E" and "replays E S T"
  shows "\<exists>T1. import_chain T p ch = (T1, 0, length ch) \<and> replays E S1 T1"
  using assms
proof (induction ch arbitrary: S S1 T p cr up)
  case Nil
  then show ?case by simp
next
  case (Cons x ch)
  obtain ty key fs where x: "x = (ty, key, fs)" by (cases x)
  obtain Sa e c where u: "upsert S ty key fs p = (Sa, e, c)" by (metis prod_cases3)
  obtain S2 cr2 up2 where r: "import_chain Sa (Some (ent_id e)) ch = (S2, cr2, up2)"
    by (metis prod_cases3)
  from Cons.prems(1) x u r have s: "S1 = S2" by simp
  have bSa: "below Sa E"
    using import_chain_below[OF r] Cons.prems(2) s by (metis below_trans)
  from replays_upsert[OF u bSa Cons.prems(3)] obtain Ta t
    where uT: "upsert T ty key fs p = (Ta, t, False)" and id: "ent_id t = ent_id e"
      and rel: "replays E Sa Ta"
    by blast
  from Cons.IH[OF r _ rel] Cons.prems(2) s obtain T1
    where rT: "import_chain Ta (Some (ent_id e)) ch = (T1, 0, length ch)" and rel1: "replays E S1 T1"
    by auto
  from uT id rT x have "import_chain T p (x # ch) = (T1, 0, length (x # ch))" by simp
  with rel1 show ?case by blast
qed

lemma import_chain_counts:
  "import_chain S p ch = (S1, cr, up) \<Longrightarrow> cr + up = length ch"
proof (induction ch arbitrary: S S1 p cr up)
  case Nil
  then show ?case by simp
next
  case (Cons x ch)
  obtain ty key fs where x: "x = (ty, key, fs)" by (cases x)
  obtain Sa e c where u: "upsert S ty key fs p = (Sa, e, c)" by (metis prod_cases3)
  obtain S2 cr2 up2 where r: "import_chain Sa (Some (ent_id e)) ch = (S2, cr2, up2)"
    by (metis prod_cases3)
  from Cons.IH[OF r] Cons.prems x u r show ?case by (auto split: if_splits)
qed

lemma replays_rows:
  assumes "import_rows S rows = (S1, sm)" and "below S1 E" and "replays E S T"
  shows "\<exists>T1 sm'. import_rows T rows = (T1, sm') \<and> created sm' = 0
           \<and> updated sm' = created sm + updated sm \<and> skipped sm' = skipped sm
           \<and> replays E S1 T1"
  using assms
proof (induction rows arbitrary: S S1 T sm)
  case Nil
  then show ?case by auto
next
  case (Cons row rows)
  show ?case
  proof (cases row)
    case (Inl reason)
    obtain S2 sm2 where r: "import_rows S rows = (S2, sm2)" by (metis surj_pair)
    with Cons.prems(1) Inl have s: "S1 = S2" "sm = sm2\<lparr>skipped := reason # skipped sm2\<rparr>" by simp_all
    from Cons.IH[OF r _ Cons.prems(3)] Cons.prems(2) s(1) obtain T1 sm'
      where "import_rows T rows = (T1, sm')" "created sm' = 0"
        "updated sm' = created sm2 + updated sm2" "skipped sm' = skipped sm2" "replays E S1 T1"
      by auto
    with Inl s show ?thesis by auto
  next
    case (Inr ch)
    obtain Sa cr up where c: "import_chain S None ch = (Sa, cr, up)" by (metis prod_cases3)
    obtain S2 sm2 where r: "import_rows Sa rows = (S2, sm2)" by (metis surj_pair)
    from Cons.prems(1) Inr c r have s: "S1 = S2"
      "sm = sm2\<lparr>created := cr + created sm2, updated := up + updated sm2\<rparr>" by simp_all
    have bSa: "below Sa E"
      using import_rows_below[OF r] Cons.prems(2) s(1) by (metis below_trans)
    from replays_chain[OF c bSa Cons.prems(3)] obtain Ta
      where cT: "import_chain T None ch = (Ta, 0, length ch)" and rel: "replays E Sa Ta"
      by blast
    from Cons.IH[OF r _ rel] Cons.prems(2) s(1) obtain T1 sm'
      where rT: "import_rows Ta rows = (T1, sm')" and z: "created sm' = 0"
        and up': "updated sm' = created sm2 + updated sm2" and sk: "skipped sm' = skipped sm2"
        and rel1: "replays E S1 T1"
      by auto
    have len: "cr + up = length ch" by (rule import_chain_counts[OF c])
    from cT rT Inr have "import_rows T (row # rows)
        = (T1, sm'\<lparr>created := 0 + created sm', updated := length ch + updated sm'\<rparr>)"
      by simp
    with z up' sk rel1 s len show ?thesis by auto
  qed
qed

lemma replays_final:
  assumes "replays E E T"
  shows "T = E"
proof -
  have ents: "store_ents T = store_ents E"
  proof
    fix k
    show "store_ents T k = store_ents E k"
    proof (cases "store_ents E k")
      case None
      from assms have "(store_ents T k = None) = (store_ents E k = None)"
        unfolding replays_def by blast
      with None show ?thesis by simp
    next
      case (Some b)
      with assms obtain a where a: "store_ents T k = Some a"
        unfolding replays_def by (metis option.exhaust)
      with Some assms have id: "ent_id a = ent_id b" unfolding replays_def by blast
      from assms have "\<forall>f. flds T k f = flds E k f" unfolding replays_def by blast
      with a Some have "ent_fields a = ent_fields b" by (auto simp: flds_def)
      with id a Some show ?thesis by simp
    qed
  qed
  from assms have "store_keys T = store_keys E" "next_id T = next_id E"
    unfolding replays_def by simp_all
  with ents show ?thesis by simp
qed

lemma replays_start: "replays E S E"
  by (simp add: replays_def)


subsection \<open>C5: importing the same rows again\<close>

text \<open>
  Claim C5. Over the upsert engine of the spec: when an import of some rows has ended in
  a store, importing the same rows into that store gives the same store again (the same
  keys, the same identifiers, the same fields, the same counter), creates nothing, updates
  every entity the first import created or updated, and skips the same rows. And an
  upsert under a natural key that was just upserted finds that entity: it creates
  nothing and returns the same identifier.
\<close>

theorem reimport_is_idempotent:
  assumes "import_rows st rows = (st1, sm1)"
  shows "fst (import_rows st1 rows) = st1
       \<and> created (snd (import_rows st1 rows)) = 0
       \<and> updated (snd (import_rows st1 rows)) = created sm1 + updated sm1
       \<and> skipped (snd (import_rows st1 rows)) = skipped sm1
       \<and> (case upsert st ty key fs p of
             (sa, e, c) \<Rightarrow>
               (case upsert sa ty key fs' p of
                  (sb, e', c') \<Rightarrow>
                    c' = False \<and> ent_id e' = ent_id e \<and> store_keys sb = store_keys sa
                    \<and> next_id sb = next_id sa))"
proof -
  from replays_rows[OF assms below_refl replays_start] obtain T1 sm'
    where run: "import_rows st1 rows = (T1, sm')" and z: "created sm' = 0"
      and u: "updated sm' = created sm1 + updated sm1" and k: "skipped sm' = skipped sm1"
      and rel: "replays st1 st1 T1"
    by blast
  from replays_final[OF rel] have "T1 = st1" .
  with run z u k have a: "fst (import_rows st1 rows) = st1
       \<and> created (snd (import_rows st1 rows)) = 0
       \<and> updated (snd (import_rows st1 rows)) = created sm1 + updated sm1
       \<and> skipped (snd (import_rows st1 rows)) = skipped sm1"
    by simp
  have b: "case upsert st ty key fs p of
             (sa, e, c) \<Rightarrow>
               (case upsert sa ty key fs' p of
                  (sb, e', c') \<Rightarrow>
                    c' = False \<and> ent_id e' = ent_id e \<and> store_keys sb = store_keys sa
                    \<and> next_id sb = next_id sa)"
    by (simp add: upsert_def split: option.splits)
  from a b show ?thesis by blast
qed

theorem reimport_is_idempotent_witness:
  "snd (import_rows empty_store example_hierarchy)
     = \<lparr>created = 4, updated = 2, skipped = [''MissingParentKey'']\<rparr>
   \<and> store_keys (fst (import_rows empty_store example_hierarchy))
       = [(regions, None, ''North''), (districts, Some 1, ''D1''),
          (landmarks, Some 2, ''L1''), (landmarks, Some 2, ''L2'')]
   \<and> fst (import_rows (fst (import_rows empty_store example_hierarchy)) example_hierarchy)
       = fst (import_rows empty_store example_hierarchy)
   \<and> created (snd (import_rows (fst (import_rows empty_store example_hierarchy)) example_hierarchy)) = 0
   \<and> updated (snd (import_rows (fst (import_rows empty_store example_hierarchy)) example_hierarchy)) = 6"
proof -
  let ?r = "import_rows empty_store example_hierarchy"
  have run: "?r = (fst ?r, snd ?r)" by simp
  have sm: "snd ?r = \<lparr>created = 4, updated = 2, skipped = [''MissingParentKey'']\<rparr>"
    by code_simp
  have keys: "store_keys (fst ?r)
       = [(regions, None, ''North''), (districts, Some 1, ''D1''),
          (landmarks, Some 2, ''L1''), (landmarks, Some 2, ''L2'')]"
    by code_simp
  from reimport_is_idempotent[OF run]
  have "fst (import_rows (fst ?r) example_hierarchy) = fst ?r"
    and "created (snd (import_rows (fst ?r) example_hierarchy)) = 0"
    and "updated (snd (import_rows (fst ?r) example_hierarchy)) = created (snd ?r) + updated (snd ?r)"
    by blast+
  with sm keys show ?thesis by simp
qed

lemma merge_fields_blank:
  "incoming f = Some v \<Longrightarrow> is_blank v \<Longrightarrow> merge_fields old incoming f = old f"
  by (simp add: merge_fields_def)

lemma merge_fields_all_blank:
  assumes "\<forall>g v. incoming g = Some v \<longrightarrow> is_blank v"
  shows "merge_fields old incoming = old"
proof
  fix g
  show "merge_fields old incoming g = old g"
    using assms by (cases "incoming g") (auto simp: merge_fields_def)
qed

lemma cell_value_blank:
  assumes "\<forall>b. orig \<noteq> JBool b"
  shows "is_blank (cell_value ev orig [])"
  using assms by (cases orig) (auto simp: cell_value_def is_blank_def trim_def)

lemma patch_entity_keeps:
  assumes "patch_entity st ty n payload = Inr st'" and "store_ents st k = Some e"
  shows "\<exists>e'. store_ents st' k = Some e' \<and> ent_id e' = ent_id e
            \<and> (\<forall>g. (\<forall>v. map_of payload g = Some v \<longrightarrow> is_blank v)
                     \<longrightarrow> ent_fields e' g = ent_fields e g)"
proof -
  from assms(1) obtain k0 e0 where k0: "store_ents st k0 = Some e0"
    and st': "st' = st\<lparr>store_ents := (store_ents st)
                          (k0 \<mapsto> e0\<lparr>ent_fields := merge_fields (ent_fields e0) (map_of payload)\<rparr>)\<rparr>"
    by (auto simp: patch_entity_def split: option.splits)
  show ?thesis
  proof (cases "k = k0")
    case False
    with st' assms(2) show ?thesis by simp
  next
    case True
    with k0 assms(2) have e: "e0 = e" by simp
    have "\<forall>g. (\<forall>v. map_of payload g = Some v \<longrightarrow> is_blank v)
              \<longrightarrow> merge_fields (ent_fields e) (map_of payload) g = ent_fields e g"
      by (auto simp: merge_fields_def split: option.splits)
    with True st' e show ?thesis by simp
  qed
qed

lemma patch_entity_blank_cell:
  assumes "is_blank v"
  shows "patch_entity st ty n [(c, v)] = Inr st' \<Longrightarrow> st' = st"
proof -
  assume p: "patch_entity st ty n [(c, v)] = Inr st'"
  then obtain k0 e0 where k0: "store_ents st k0 = Some e0"
    and st': "st' = st\<lparr>store_ents := (store_ents st)
                          (k0 \<mapsto> e0\<lparr>ent_fields := merge_fields (ent_fields e0) (map_of [(c, v)])\<rparr>)\<rparr>"
    by (auto simp: patch_entity_def split: option.splits)
  have "merge_fields (ent_fields e0) (map_of [(c, v)]) = ent_fields e0"
    by (rule merge_fields_all_blank) (use assms in \<open>auto split: if_splits\<close>)
  then have "e0\<lparr>ent_fields := merge_fields (ent_fields e0) (map_of [(c, v)])\<rparr> = e0" by simp
  with k0 have "(store_ents st)(k0 \<mapsto> e0\<lparr>ent_fields := merge_fields (ent_fields e0) (map_of [(c, v)])\<rparr>)
        = store_ents st"
    by (simp add: fun_upd_idem)
  with st' show "st' = st" by simp
qed

lemma store_entities_patch_blank_cell:
  assumes "is_blank v"
  shows "snd (store_entities_patch id_of st tok ty i [(c, v)]) = st"
  using patch_entity_blank_cell[OF assms]
  by (auto simp: store_entities_patch_def split: option.splits sum.splits)

lemma handleCellSave_server:
  assumes get: "\<And>st ty l k. snd (entities_get be st ty l k) = st"
  shows "snd (handleCellSave be ev s st) = st
       \<or> (\<exists>ec row. editingCell s = Some ec \<and> js_nth (table_data s) (rowIndex ec) = Some row
            \<and> snd (handleCellSave be ev s st)
                = snd (entities_patch be st (token ev) (selected s) (js_get row ''id'')
                         [(column ec, cell_value ev (js_get row (column ec)) (editValue s))]))"
proof (cases "editingCell s")
  case None
  then show ?thesis by (simp add: handleCellSave_def)
next
  case (Some ec)
  show ?thesis
  proof (cases "js_nth (table_data s) (rowIndex ec)")
    case None
    with Some show ?thesis by (simp add: handleCellSave_def)
  next
    case row: (Some row)
    show ?thesis
    proof (cases "falsy ev (js_get row ''id'')")
      case True
      with Some row show ?thesis by (simp add: handleCellSave_def)
    next
      case False
      let ?p = "[(column ec, cell_value ev (js_get row (column ec)) (editValue s))]"
      obtain h st1 where ep: "entities_patch be st (token ev) (selected s) (js_get row ''id'') ?p = (h, st1)"
        by (metis surj_pair)
      have f: "\<And>x. snd (fetchEntities be st1 (selected s) x) = st1"
        using get by (simp add: fetchEntities_def split: prod.splits) (metis snd_conv)
      have "snd (handleCellSave be ev s st) = st1"
        using Some row False ep f[of 0]
        by (auto simp: handleCellSave_def patchEntity_def Let_def split: sum.splits prod.splits)
      with Some row ep show ?thesis by auto
    qed
  qed
qed


subsection \<open>C2: a blank value never clears a stored field\<close>

text \<open>
  Claim C2. Over the upsert engine of the spec: merging an incoming blank value leaves
  the stored value of that field as it was, in the merge itself, in an upsert that finds
  its entity, and in a patch by id, where every entity keeps its identifier and every
  field whose incoming value is blank keeps its value. \<open>handleCellSave\<close> sends a blank
  value (\<open>null\<close> for a number, the empty string otherwise) for an emptied cell that did not
  hold a boolean, and the store is then exactly as it was.
\<close>

theorem blank_patch_never_clears:
  fixes be :: "('n, 'n entity_store) backend"
  assumes patch: "\<And>st tok ty i p. snd (entities_patch be st tok ty i p)
                                   = snd (store_entities_patch id_of st tok ty i p)"
      and get: "\<And>st ty l k. snd (entities_get be st ty l k) = st"
  shows "(\<forall>v. incoming f = Some v \<and> is_blank v \<longrightarrow> merge_fields old incoming f = old f)
       \<and> (\<forall>e v. store_ents st (ty, p, key) = Some e \<and> incoming f = Some v \<and> is_blank v \<longrightarrow>
             ent_fields (fst (snd (upsert st ty key incoming p))) f = ent_fields e f)
       \<and> (\<forall>st' k e. patch_entity st ty n payload = Inr st' \<and> store_ents st k = Some e \<longrightarrow>
             (\<exists>e'. store_ents st' k = Some e' \<and> ent_id e' = ent_id e
                  \<and> (\<forall>g. (\<forall>v. map_of payload g = Some v \<longrightarrow> is_blank v)
                           \<longrightarrow> ent_fields e' g = ent_fields e g)))
       \<and> (\<forall>orig. (\<forall>b. orig \<noteq> JBool b) \<longrightarrow> is_blank (cell_value ev orig []))
       \<and> (editValue s = []
            \<and> (\<forall>ec row b. editingCell s = Some ec \<and> js_nth (table_data s) (rowIndex ec) = Some row
                   \<longrightarrow> js_get row (column ec) \<noteq> JBool b)
            \<longrightarrow> snd (handleCellSave be ev s st) = st)"
proof -
  have a: "\<forall>v. incoming f = Some v \<and> is_blank v \<longrightarrow> merge_fields old incoming f = old f"
    by (simp add: merge_fields_blank)
  have b: "\<forall>e v. store_ents st (ty, p, key) = Some e \<and> incoming f = Some v \<and> is_blank v \<longrightarrow>
             ent_fields (fst (snd (upsert st ty key incoming p))) f = ent_fields e f"
    by (auto simp: upsert_def merge_fields_blank)
  have c: "\<forall>st' k e. patch_entity st ty n payload = Inr st' \<and> store_ents st k = Some e \<longrightarrow>
             (\<exists>e'. store_ents st' k = Some e' \<and> ent_id e' = ent_id e
                  \<and> (\<forall>g. (\<forall>v. map_of payload g = Some v \<longrightarrow> is_blank v)
                           \<longrightarrow> ent_fields e' g = ent_fields e g))"
    using patch_entity_keeps by blast
  have d: "\<forall>orig. (\<forall>b. orig \<noteq> JBool b) \<longrightarrow> is_blank (cell_value ev orig [])"
    by (simp add: cell_value_blank)
  have e: "editValue s = []
            \<and> (\<forall>ec row b. editingCell s = Some ec \<and> js_nth (table_data s) (rowIndex ec) = Some row
                   \<longrightarrow> js_get row (column ec) \<noteq> JBool b)
            \<longrightarrow> snd (handleCellSave be ev s st) = st"
  proof (intro impI, elim conjE)
    assume ed: "editValue s = []"
      and nb: "\<forall>ec row b. editingCell s = Some ec \<and> js_nth (table_data s) (rowIndex ec) = Some row
                   \<longrightarrow> js_get row (column ec) \<noteq> JBool b"
    from handleCellSave_server[OF get, of ev s st]
    show "snd (handleCellSave be ev s st) = st"
    proof
      assume "snd (handleCellSave be ev s st) = st"
      then show ?thesis .
    next
      assume "\<exists>ec row. editingCell s = Some ec \<and> js_nth (table_data s) (rowIndex ec) = Some row
            \<and> snd (handleCellSave be ev s st)
                = snd (entities_patch be st (token ev) (selected s) (js_get row ''id'')
                         [(column ec, cell_value ev (js_get row (column ec)) (editValue s))])"
      then obtain ec row where ec: "editingCell s = Some ec"
        and row: "js_nth (table_data s) (rowIndex ec) = Some row"
        and eq: "snd (handleCellSave be ev s st)
                = snd (entities_patch be st (token ev) (selected s) (js_get row ''id'')
                         [(column ec, cell_value ev (js_get row (column ec)) (editValue s))])"
        by blast
      from nb ec row have "\<forall>b. js_get row (column ec) \<noteq> JBool b" by blast
      from cell_value_blank[OF this, of ev]
      have "is_blank (cell_value ev (js_get row (column ec)) (editValue s))" using ed by simp
      from store_entities_patch_blank_cell[OF this] eq patch
      show ?thesis by simp
    qed
  qed
  from a b c d e show ?thesis by blast
qed

theorem blank_patch_never_clears_witness:
  "editValue example_blank_edit = []
   \<and> cell_value example_env (JStr ''D1'') [] = JStr []
   \<and> is_blank (JStr [] :: int jsval)
   \<and> flds example_entities (districts, Some 1, ''D1'') ''code'' = Some (JStr ''D1'')
   \<and> error (fst (handleCellSave entity_backend example_env example_blank_edit example_entities)) = None
   \<and> snd (handleCellSave entity_backend example_env example_blank_edit example_entities)
       = example_entities"
proof -
  have patch: "\<And>st tok ty i p. snd (entities_patch entity_backend st tok ty i p)
                                   = snd (store_entities_patch id_int st tok ty i p)"
    by (simp add: entity_backend_def)
  have get: "\<And>st ty l k. snd (entities_get entity_backend st ty l k) = st"
    by (simp add: entity_backend_def)
  have ed: "editValue example_blank_edit = []" by code_simp
  have cv: "cell_value example_env (JStr ''D1'') [] = JStr []" by code_simp
  have bl: "is_blank (JStr [] :: int jsval)" by code_simp
  have code: "flds example_entities (districts, Some 1, ''D1'') ''code'' = Some (JStr ''D1'')"
    by code_simp
  have err: "error (fst (handleCellSave entity_backend example_env example_blank_edit example_entities)) = None"
    by code_simp
  have nb: "\<forall>ec row b. editingCell example_blank_edit = Some ec
                 \<and> js_nth (table_data example_blank_edit) (rowIndex ec) = Some row
                   \<longrightarrow> js_get row (column ec) \<noteq> JBool b"
    by (simp add: example_blank_edit_def App_init_def js_nth_def js_get_def)
  from blank_patch_never_clears[OF patch get, where s = example_blank_edit and ev = example_env
         and st = example_entities] ed nb
  have "snd (handleCellSave entity_backend example_env example_blank_edit example_entities)
       = example_entities"
    by blast
  with ed cv bl code err show ?thesis by blast
qed

end
